theory Spec2Isabelle
  imports Main
begin

section \<open>The script AST (pkg/types)\<close>

text \<open>
  The engine of \<^verbatim>\<open>pkg/engine\<close> walks the AST of \<^verbatim>\<open>pkg/types/ast.go\<close>.
  Structs are records; the \<^verbatim>\<open>Node\<close> interface is a datatype with one constructor
  per implementing struct. The control-flow structs (\<^verbatim>\<open>IfNode\<close>, \<^verbatim>\<open>ForNode\<close>,
  \<^verbatim>\<open>WhileNode\<close>, \<^verbatim>\<open>AssignmentNode\<close>, \<^verbatim>\<open>FunctionNode\<close>) carry the fields the
  engine reads from them. A \<^verbatim>\<open>*ScriptNode\<close> is its \<^verbatim>\<open>Nodes\<close> slice; a nil-able
  pointer is an option. The constructors \<open>CommandN\<close>, \<open>RedirectN\<close> and \<open>ScriptN\<close> wrap
  the structs of the same name as nodes.
\<close>

record Position =
  Line :: int
  Column :: int
  Offset :: int

record RedirectNode =
  RPos :: Position
  Op :: string
  File :: string
  Fd :: int

record CommandNode =
  Pos :: Position
  Name :: string
  Args :: "string list"
  Redirect :: "RedirectNode option"

datatype Node =
    CommandN CommandNode
  | PipeNode Node Node
  | RedirectN RedirectNode
  | ScriptN "Node list"
  | IfNode Node "Node list" "Node list option"
  | ForNode string "string list" "Node list"
  | WhileNode Node "Node list"
  | AssignmentNode string string
  | FunctionNode string "Node list"

type_synonym ScriptNode = "Node list"

text \<open>The Go type name that \<^verbatim>\<open>%T\<close> prints for a node.\<close>

fun type_name :: "Node \<Rightarrow> string" where
  "type_name (CommandN c) = ''*types.CommandNode''"
| "type_name (PipeNode l r) = ''*types.PipeNode''"
| "type_name (RedirectN r) = ''*types.RedirectNode''"
| "type_name (ScriptN ns) = ''*types.ScriptNode''"
| "type_name (IfNode c t e) = ''*types.IfNode''"
| "type_name (ForNode v xs b) = ''*types.ForNode''"
| "type_name (WhileNode c b) = ''*types.WhileNode''"
| "type_name (AssignmentNode k v) = ''*types.AssignmentNode''"
| "type_name (FunctionNode f b) = ''*types.FunctionNode''"

section \<open>Execution modes and results (pkg/engine)\<close>

datatype ExecutionMode = ModeInterpreted | ModeProcess | ModeHybrid

text \<open>
  \<^verbatim>\<open>Duration\<close> is a number of clock ticks. \<^verbatim>\<open>ModeInterpreted\<close> is the zero
  value of \<^verbatim>\<open>ExecutionMode\<close>, so it is the mode of a result whose \<^verbatim>\<open>Mode\<close> field
  was never assigned. The fields of \<^verbatim>\<open>ExecutionResult\<close> carry the prefix \<open>E\<close> and those
  of \<^verbatim>\<open>PipelineResult\<close> the prefix \<open>P\<close>, the three structs sharing their field names.
  Results are values: the engine's pointers to a \<^verbatim>\<open>CommandResult\<close> are shared only
  between the cache and the result lists, and the engine writes through them only the
  duration and the mode, which every read path stamps again.
\<close>

record CommandResult =
  Command :: CommandNode
  Success :: bool
  ExitCode :: int
  Output :: string
  Error :: string
  Duration :: nat
  Mode :: ExecutionMode

record ExecutionResult =
  ESuccess :: bool
  EExitCode :: int
  EOutput :: string
  EError :: string
  EDuration :: nat
  Commands :: "CommandResult list"

record PipelineResult =
  PSuccess :: bool
  PExitCode :: int
  POutput :: string
  PError :: string
  Results :: "CommandResult list"

text \<open>
  An engine-level (fatal) error is the \<^verbatim>\<open>error\<close> a Go function returns beside a nil
  result; a runtime panic is kept apart from it.
\<close>

datatype fatal = Err string | Panic string

section \<open>Mode selection\<close>

definition stdlibFunctions :: "(string \<times> bool) list" where
  "stdlibFunctions =
    [(''Print'', True), (''Println'', True), (''Error'', True), (''Errorln'', True),
     (''ReadFile'', True), (''WriteFile'', True), (''ListFiles'', True),
     (''FileExists'', True), (''Contains'', True), (''Replace'', True),
     (''ToUpper'', True), (''ToLower'', True), (''Trim'', True), (''GetEnv'', True),
     (''SetEnv'', True), (''WorkingDir'', True), (''ChangeDir'', True)]"

text \<open>Indexing a Go \<^verbatim>\<open>map[string]bool\<close> at a missing key yields \<^verbatim>\<open>false\<close>.\<close>

definition isStdLibFunction :: "string \<Rightarrow> bool" where
  "isStdLibFunction funcName =
     (case map_of stdlibFunctions funcName of Some b \<Rightarrow> b | None \<Rightarrow> False)"

text \<open>
  \<^verbatim>\<open>isExternalCommandAvailable\<close> asks \<^verbatim>\<open>exec.LookPath\<close>; the search path is the
  parameter \<open>lookPath\<close>.
\<close>

definition isExternalCommandAvailable :: "(string \<Rightarrow> bool) \<Rightarrow> string \<Rightarrow> bool" where
  "isExternalCommandAvailable lookPath cmd = lookPath cmd"

definition decideExecutionMode :: "(string \<Rightarrow> bool) \<Rightarrow> CommandNode \<Rightarrow> ExecutionMode" where
  "decideExecutionMode lookPath cmd =
     (if isStdLibFunction (Name cmd) then ModeInterpreted
      else if isExternalCommandAvailable lookPath (Name cmd) then ModeProcess
      else ModeProcess)"

definition intrinsic_names :: "string list" where
  "intrinsic_names =
    [''Print'', ''Println'', ''Error'', ''Errorln'', ''ReadFile'', ''WriteFile'',
     ''ListFiles'', ''FileExists'', ''Contains'', ''Replace'', ''ToUpper'', ''ToLower'',
     ''Trim'', ''GetEnv'', ''SetEnv'', ''WorkingDir'', ''ChangeDir'']"

section \<open>The world the engine runs in\<close>

text \<open>
  Everything the engine touches outside its own code is explicit state. \<open>World\<close>
  holds the \<^verbatim>\<open>EnvironmentManager\<close> (\<open>environment\<close>, \<open>workingDir\<close>), the host
  process's own environment and directory (what \<^verbatim>\<open>os.Getenv\<close>, \<^verbatim>\<open>os.Setenv\<close>,
  \<^verbatim>\<open>os.Getwd\<close> and \<^verbatim>\<open>os.Chdir\<close> act on), the file system (regular files by
  path, directories with their listings; a path is a key, never normalised), the
  file handles currently open, the command cache, a clock, the host's standard streams,
  and \<open>calls\<close>: the calls made to the collaborators, in order. An \<open>Event\<close> is one such
  call: of \<^verbatim>\<open>security.CheckCommand\<close>, of \<^verbatim>\<open>cache.Get\<close> or \<^verbatim>\<open>cache.Put\<close>, of
  \<^verbatim>\<open>Start\<close> on a child process (directly or through \<^verbatim>\<open>Run\<close>, whether or not the
  start succeeds; the event holds the request handed to the host), of \<^verbatim>\<open>Write\<close> on
  the stdin pipe of a started child, of opening and of closing a file. The engine's \<^verbatim>\<open>processPool\<close> field
  is never used by its code and has no counterpart here.
\<close>

datatype FsOp = OpRead | OpCreate | OpAppend | OpStat | OpReadDir | OpChdir | OpGetwd

datatype StdinSrc = NoStdin | StdinText string | StdinFile string

datatype OutSink = NoSink | Capture | FileSink string

text \<open>
  A \<open>ProcRequest\<close> is the \<^verbatim>\<open>exec.Cmd\<close> the engine builds: name, arguments, environment
  block, directory and the three streams. For a stage with piped input, \<open>StdinText\<close> names
  the text the engine writes into the stdin pipe once the child has started.
\<close>

record ProcRequest =
  pname :: string
  pargs :: "string list"
  penv :: "string \<rightharpoonup> string"
  pdir :: string
  pstdin :: StdinSrc
  pstdout :: OutSink
  pstderr :: OutSink

datatype Event =
    SecurityCheck CommandNode
  | CacheGet string "string list"
  | CachePut string "string list" CommandResult
  | ProcStart ProcRequest
  | StdinWrite string
  | FileOpen FsOp string
  | FileClose string

record CacheEntry =
  ce_name :: string
  ce_args :: "string list"
  ce_result :: CommandResult
  ce_at :: nat

record CommandCache =
  entries :: "CacheEntry list"
  maxSize :: nat
  ttl :: nat

record World =
  environment :: "string \<rightharpoonup> string"
  workingDir :: string
  os_environ :: "string \<rightharpoonup> string"
  os_cwd :: string
  files :: "string \<rightharpoonup> string"
  dirs :: "string \<rightharpoonup> string list"
  open_handles :: "string list"
  cache :: CommandCache
  clock :: nat
  host_stdout :: string
  host_stderr :: string
  calls :: "Event list"

text \<open>
  What the operating system does with a child process is not the engine's code: the
  host answers a request with an outcome. \<open>pipe_error\<close> is the failure of
  \<^verbatim>\<open>StdinPipe\<close>, \<open>start_error\<close> that of \<^verbatim>\<open>Start\<close>, \<open>stdin_error\<close> that of
  writing the piped input, \<open>wait_status\<close> what \<^verbatim>\<open>Wait\<close> reports; \<open>out_text\<close> and
  \<open>err_text\<close> are what the child wrote to its standard streams, and the rest is the
  file system and the clock it leaves behind.
\<close>

datatype WaitStatus = WaitOK | WaitExit int | WaitOther string

record ProcOutcome =
  pipe_error :: "string option"
  start_error :: "string option"
  stdin_error :: "string option"
  wait_status :: WaitStatus
  out_text :: string
  err_text :: string
  files_after :: "string \<rightharpoonup> string"
  dirs_after :: "string \<rightharpoonup> string list"
  elapsed :: nat

text \<open>
  The collaborators whose code is outside the engine: the \<^verbatim>\<open>SecurityChecker\<close>
  (\<open>None\<close> accepts, \<open>Some msg\<close> rejects), \<^verbatim>\<open>exec.LookPath\<close>, the operating
  system's processes, the failures of file-system calls beyond a missing path, and the
  functions of Go's \<^verbatim>\<open>strings\<close> package.
\<close>

record Host =
  CheckCommand :: "CommandNode \<Rightarrow> string option"
  LookPath :: "string \<Rightarrow> bool"
  RunProcess :: "World \<Rightarrow> ProcRequest \<Rightarrow> ProcOutcome"
  FsError :: "World \<Rightarrow> FsOp \<Rightarrow> string \<Rightarrow> string option"
  strings_Contains :: "string \<Rightarrow> string \<Rightarrow> bool"
  strings_ReplaceAll :: "string \<Rightarrow> string \<Rightarrow> string \<Rightarrow> string"
  strings_ToUpper :: "string \<Rightarrow> string"
  strings_ToLower :: "string \<Rightarrow> string"
  strings_TrimSpace :: "string \<Rightarrow> string"

definition log_call :: "Event \<Rightarrow> World \<Rightarrow> World" where
  "log_call e w = w\<lparr>calls := calls w @ [e]\<rparr>"

definition no_such_file :: "string \<Rightarrow> string \<Rightarrow> string" where
  "no_such_file opname path = opname @ '' '' @ path @ '': no such file or directory''"

section \<open>The standard library (pkg/stdlib)\<close>

text \<open>
  A Go function returning \<^verbatim>\<open>(T, error)\<close> returns a pair of a value and an optional
  error message; one returning \<^verbatim>\<open>error\<close> returns the optional message.
\<close>

definition ioutil_ReadFile :: "Host \<Rightarrow> World \<Rightarrow> string \<Rightarrow> string + string" where
  "ioutil_ReadFile h w filename =
     (case FsError h w OpRead filename of
        Some e \<Rightarrow> Inl e
      | None \<Rightarrow>
          (case files w filename of
             None \<Rightarrow> Inl (no_such_file ''open'' filename)
           | Some content \<Rightarrow> Inr content))"

definition ReadFile :: "Host \<Rightarrow> string \<Rightarrow> World \<Rightarrow> (string \<times> string option) \<times> World" where
  "ReadFile h filename w =
     (case ioutil_ReadFile h w filename of
        Inl e \<Rightarrow> (('''', Some (''failed to read file '' @ filename @ '': '' @ e)), w)
      | Inr content \<Rightarrow> ((content, None), w))"

definition WriteFile :: "Host \<Rightarrow> string \<Rightarrow> string \<Rightarrow> World \<Rightarrow> string option \<times> World" where
  "WriteFile h filename content w =
     (case FsError h w OpCreate filename of
        Some e \<Rightarrow> (Some e, w)
      | None \<Rightarrow> (None, w\<lparr>files := (files w)(filename \<mapsto> content)\<rparr>))"

definition ioutil_ReadDir :: "Host \<Rightarrow> World \<Rightarrow> string \<Rightarrow> string + string list" where
  "ioutil_ReadDir h w dirpath =
     (case FsError h w OpReadDir dirpath of
        Some e \<Rightarrow> Inl e
      | None \<Rightarrow>
          (case dirs w dirpath of
             None \<Rightarrow> Inl (no_such_file ''open'' dirpath)
           | Some names \<Rightarrow> Inr names))"

definition ListFiles :: "Host \<Rightarrow> string \<Rightarrow> World \<Rightarrow> (string list \<times> string option) \<times> World" where
  "ListFiles h dirpath w =
     (case ioutil_ReadDir h w dirpath of
        Inl e \<Rightarrow> (([], Some (''failed to list directory '' @ dirpath @ '': '' @ e)), w)
      | Inr names \<Rightarrow> ((names, None), w))"

text \<open>
  \<^verbatim>\<open>FileExists\<close> is \<^verbatim>\<open>!os.IsNotExist(err)\<close> of \<^verbatim>\<open>os.Stat\<close>: true for a file, for
  a directory, and when the stat fails for another reason than a missing path.
\<close>

definition FileExists :: "Host \<Rightarrow> string \<Rightarrow> World \<Rightarrow> bool" where
  "FileExists h filename w \<longleftrightarrow>
     FsError h w OpStat filename \<noteq> None \<or> files w filename \<noteq> None \<or> dirs w filename \<noteq> None"

definition GetEnv :: "string \<Rightarrow> World \<Rightarrow> string" where
  "GetEnv key w = (case os_environ w key of None \<Rightarrow> '''' | Some v \<Rightarrow> v)"

text \<open>
  \<^verbatim>\<open>os.Setenv\<close> refuses an empty key, a key with \<^verbatim>\<open>=\<close> or a NUL byte, and a value
  with a NUL byte.
\<close>

definition SetEnv :: "string \<Rightarrow> string \<Rightarrow> World \<Rightarrow> string option \<times> World" where
  "SetEnv key v w =
     (if key = [] \<or> CHR ''='' \<in> set key \<or> CHR 0x00 \<in> set key \<or> CHR 0x00 \<in> set v
      then (Some ''setenv: invalid argument'', w)
      else (None, w\<lparr>os_environ := (os_environ w)(key \<mapsto> v)\<rparr>))"

definition WorkingDir :: "Host \<Rightarrow> World \<Rightarrow> (string \<times> string option) \<times> World" where
  "WorkingDir h w =
     (case FsError h w OpGetwd (os_cwd w) of
        Some e \<Rightarrow> (('''', Some e), w)
      | None \<Rightarrow> ((os_cwd w, None), w))"

definition ChangeDir :: "Host \<Rightarrow> string \<Rightarrow> World \<Rightarrow> string option \<times> World" where
  "ChangeDir h dirpath w =
     (case FsError h w OpChdir dirpath of
        Some e \<Rightarrow> (Some e, w)
      | None \<Rightarrow>
          (case dirs w dirpath of
             None \<Rightarrow> (Some (no_such_file ''chdir'' dirpath), w)
           | Some names \<Rightarrow> (None, w\<lparr>os_cwd := dirpath\<rparr>)))"

definition Print :: "string \<Rightarrow> World \<Rightarrow> World" where
  "Print text w = w\<lparr>host_stdout := host_stdout w @ text\<rparr>"

definition Println :: "string \<Rightarrow> World \<Rightarrow> World" where
  "Println text w = w\<lparr>host_stdout := host_stdout w @ text @ [CHR 0x0A]\<rparr>"

definition Error' :: "string \<Rightarrow> World \<Rightarrow> World" where
  "Error' text w = w\<lparr>host_stderr := host_stderr w @ text\<rparr>"

definition Errorln :: "string \<Rightarrow> World \<Rightarrow> World" where
  "Errorln text w = w\<lparr>host_stderr := host_stderr w @ text @ [CHR 0x0A]\<rparr>"

fun strings_Join :: "string list \<Rightarrow> string \<Rightarrow> string" where
  "strings_Join [] sep = ''''"
| "strings_Join [x] sep = x"
| "strings_Join (x # y # ys) sep = x @ sep @ strings_Join (y # ys) sep"

definition show_bool :: "bool \<Rightarrow> string" where
  "show_bool b = (if b then ''true'' else ''false'')"

section \<open>Interpreted execution\<close>

definition executeStdLibFunction ::
  "Host \<Rightarrow> string \<Rightarrow> string list \<Rightarrow> World \<Rightarrow> (string \<times> string option) \<times> World" where
  "executeStdLibFunction h funcName args w =
    (if funcName = ''Print'' then
       (if length args > 0 then ((args ! 0, None), Print (args ! 0) w)
        else (('''', None), w))
     else if funcName = ''Println'' then
       (if length args > 0 then ((args ! 0, None), Println (args ! 0) w)
        else (('''', None), Println '''' w))
     else if funcName = ''Error'' then
       (if length args > 0 then ((args ! 0, None), Error' (args ! 0) w)
        else (('''', None), w))
     else if funcName = ''Errorln'' then
       (if length args > 0 then ((args ! 0, None), Errorln (args ! 0) w)
        else (('''', None), Errorln '''' w))
     else if funcName = ''ReadFile'' then
       (if length args = 0 then (('''', Some ''ReadFile requires filename argument''), w)
        else ReadFile h (args ! 0) w)
     else if funcName = ''WriteFile'' then
       (if length args < 2
        then (('''', Some ''WriteFile requires filename and content arguments''), w)
        else (case WriteFile h (args ! 0) (args ! 1) w of
                (err, w') \<Rightarrow> ((''File written'', err), w')))
     else if funcName = ''ListFiles'' then
       (if length args = 0 then
          (case ListFiles h ''.'' w of
             ((fs, Some e), w') \<Rightarrow> (('''', Some e), w')
           | ((fs, None), w') \<Rightarrow> ((strings_Join fs [CHR 0x0A], None), w'))
        else
          (case ListFiles h (args ! 0) w of
             ((fs, Some e), w') \<Rightarrow> (('''', Some e), w')
           | ((fs, None), w') \<Rightarrow> ((strings_Join fs [CHR 0x0A], None), w')))
     else if funcName = ''FileExists'' then
       (if length args = 0 then (('''', Some ''FileExists requires filename argument''), w)
        else ((show_bool (FileExists h (args ! 0) w), None), w))
     else if funcName = ''Contains'' then
       (if length args < 2
        then (('''', Some ''Contains requires haystack and needle arguments''), w)
        else ((show_bool (strings_Contains h (args ! 0) (args ! 1)), None), w))
     else if funcName = ''Replace'' then
       (if length args < 3
        then (('''', Some ''Replace requires string, old, and new arguments''), w)
        else ((strings_ReplaceAll h (args ! 0) (args ! 1) (args ! 2), None), w))
     else if funcName = ''ToUpper'' then
       (if length args = 0 then (('''', None), w)
        else ((strings_ToUpper h (args ! 0), None), w))
     else if funcName = ''ToLower'' then
       (if length args = 0 then (('''', None), w)
        else ((strings_ToLower h (args ! 0), None), w))
     else if funcName = ''Trim'' then
       (if length args = 0 then (('''', None), w)
        else ((strings_TrimSpace h (args ! 0), None), w))
     else if funcName = ''GetEnv'' then
       (if length args = 0 then (('''', Some ''GetEnv requires environment variable name''), w)
        else ((GetEnv (args ! 0) w, None), w))
     else if funcName = ''SetEnv'' then
       (if length args < 2 then (('''', Some ''SetEnv requires key and value arguments''), w)
        else (case SetEnv (args ! 0) (args ! 1) w of
                (err, w') \<Rightarrow> ((''Environment variable set'', err), w')))
     else if funcName = ''WorkingDir'' then
       (case WorkingDir h w of
          ((wd, Some e), w') \<Rightarrow> (('''', Some e), w')
        | ((wd, None), w') \<Rightarrow> ((wd, None), w'))
     else if funcName = ''ChangeDir'' then
       (if length args = 0 then (('''', Some ''ChangeDir requires directory path''), w)
        else (case ChangeDir h (args ! 0) w of
                (err, w') \<Rightarrow> ((''Directory changed'', err), w')))
     else (('''', Some (''unknown standard library function: '' @ funcName)), w))"

text \<open>A \<^verbatim>\<open>CommandResult\<close> literal leaves the fields it does not name at their zero value.\<close>

definition zero_result :: "CommandNode \<Rightarrow> CommandResult" where
  "zero_result cmd =
     \<lparr>Command = cmd, Success = False, ExitCode = 0, Output = '''', Error = '''',
      Duration = 0, Mode = ModeInterpreted\<rparr>"

definition executeInterpreted ::
  "Host \<Rightarrow> CommandNode \<Rightarrow> World \<Rightarrow> (fatal + CommandResult) \<times> World" where
  "executeInterpreted h cmd w =
     (case executeStdLibFunction h (Name cmd) (Args cmd) w of
        ((result, Some e), w') \<Rightarrow>
          (Inr ((zero_result cmd)\<lparr>Success := False, ExitCode := 1, Error := e\<rparr>), w')
      | ((result, None), w') \<Rightarrow>
          (Inr ((zero_result cmd)\<lparr>Success := True, ExitCode := 0, Output := result\<rparr>), w'))"

section \<open>The command cache\<close>

text \<open>
  Modelled from the spec: the \<^verbatim>\<open>CommandCache\<close> type with its \<^verbatim>\<open>Get\<close> and \<^verbatim>\<open>Put\<close>
  is used by the engine but declared in none of its files. The spec gives it: the key is
  the exact ordered pair of name and arguments; an entry older than the TTL is invalid on
  read and pruned on that access; a full cache evicts its oldest entry. Entries are kept
  in insertion order, oldest first.
\<close>

definition key_matches :: "string \<Rightarrow> string list \<Rightarrow> CacheEntry \<Rightarrow> bool" where
  "key_matches name args e \<longleftrightarrow> ce_name e = name \<and> ce_args e = args"

definition cache_Get ::
  "CommandCache \<Rightarrow> nat \<Rightarrow> string \<Rightarrow> string list \<Rightarrow> CommandResult option \<times> CommandCache" where
  "cache_Get c now name args =
     (case find (key_matches name args) (entries c) of
        None \<Rightarrow> (None, c)
      | Some e \<Rightarrow>
          (if now - ce_at e > ttl c
           then (None, c\<lparr>entries := filter (\<lambda>x. \<not> key_matches name args x) (entries c)\<rparr>)
           else (Some (ce_result e), c)))"

definition cache_Put ::
  "CommandCache \<Rightarrow> nat \<Rightarrow> string \<Rightarrow> string list \<Rightarrow> CommandResult \<Rightarrow> CommandCache" where
  "cache_Put c now name args r =
     (let kept = filter (\<lambda>x. \<not> key_matches name args x) (entries c);
          room = (if length kept \<ge> maxSize c then tl kept else kept)
      in c\<lparr>entries := room @ [\<lparr>ce_name = name, ce_args = args, ce_result = r, ce_at = now\<rparr>]\<rparr>)"

section \<open>Redirection\<close>

text \<open>
  Opening a file registers a handle; \<^verbatim>\<open>defer file.Close()\<close> releases it when
  \<^verbatim>\<open>setupRedirect\<close> returns. \<^verbatim>\<open>os.Create\<close> creates or truncates,
  \<^verbatim>\<open>os.OpenFile\<close> with \<^verbatim>\<open>O_APPEND|O_CREATE\<close> creates or keeps, \<^verbatim>\<open>os.Open\<close>
  needs the file to exist.
\<close>

definition open_handle :: "FsOp \<Rightarrow> string \<Rightarrow> World \<Rightarrow> World" where
  "open_handle opn path w =
     log_call (FileOpen opn path) (w\<lparr>open_handles := open_handles w @ [path]\<rparr>)"

definition file_Close :: "string \<Rightarrow> World \<Rightarrow> World" where
  "file_Close path w =
     log_call (FileClose path) (w\<lparr>open_handles := remove1 path (open_handles w)\<rparr>)"

definition os_Create :: "Host \<Rightarrow> string \<Rightarrow> World \<Rightarrow> string option \<times> World" where
  "os_Create h path w =
     (case FsError h w OpCreate path of
        Some e \<Rightarrow> (Some e, w)
      | None \<Rightarrow> (None, open_handle OpCreate path (w\<lparr>files := (files w)(path \<mapsto> '''')\<rparr>)))"

definition os_OpenAppend :: "Host \<Rightarrow> string \<Rightarrow> World \<Rightarrow> string option \<times> World" where
  "os_OpenAppend h path w =
     (case FsError h w OpAppend path of
        Some e \<Rightarrow> (Some e, w)
      | None \<Rightarrow>
          (None, open_handle OpAppend path
             (w\<lparr>files := (files w)(path \<mapsto> (case files w path of None \<Rightarrow> '''' | Some c \<Rightarrow> c))\<rparr>)))"

definition os_Open :: "Host \<Rightarrow> string \<Rightarrow> World \<Rightarrow> string option \<times> World" where
  "os_Open h path w =
     (case FsError h w OpRead path of
        Some e \<Rightarrow> (Some e, w)
      | None \<Rightarrow>
          (case files w path of
             None \<Rightarrow> (Some (no_such_file ''open'' path), w)
           | Some c \<Rightarrow> (None, open_handle OpRead path w)))"

text \<open>
  \<^verbatim>\<open>setupRedirect\<close> returns its error, the \<^verbatim>\<open>exec.Cmd\<close> with its streams bound,
  and the world. The two \<^verbatim>\<open>strings.Builder\<close> parameters are never used by it.
\<close>

definition setupRedirect ::
  "Host \<Rightarrow> ProcRequest \<Rightarrow> RedirectNode \<Rightarrow> World \<Rightarrow> string option \<times> ProcRequest \<times> World" where
  "setupRedirect h cmd redirect w =
    (if Op redirect = ''>'' then
       (case os_Create h (File redirect) w of
          (Some e, w') \<Rightarrow>
            (Some (''failed to create file '' @ File redirect @ '': '' @ e), cmd, w')
        | (None, w') \<Rightarrow>
            (None,
             (if Fd redirect = 1 \<or> Fd redirect = 0 then cmd\<lparr>pstdout := FileSink (File redirect)\<rparr>
              else if Fd redirect = 2 then cmd\<lparr>pstderr := FileSink (File redirect)\<rparr>
              else cmd),
             file_Close (File redirect) w'))
     else if Op redirect = ''>>'' then
       (case os_OpenAppend h (File redirect) w of
          (Some e, w') \<Rightarrow>
            (Some (''failed to open file '' @ File redirect @ '': '' @ e), cmd, w')
        | (None, w') \<Rightarrow>
            (None,
             (if Fd redirect = 1 \<or> Fd redirect = 0 then cmd\<lparr>pstdout := FileSink (File redirect)\<rparr>
              else if Fd redirect = 2 then cmd\<lparr>pstderr := FileSink (File redirect)\<rparr>
              else cmd),
             file_Close (File redirect) w'))
     else if Op redirect = ''<'' then
       (case os_Open h (File redirect) w of
          (Some e, w') \<Rightarrow>
            (Some (''failed to open file '' @ File redirect @ '': '' @ e), cmd, w')
        | (None, w') \<Rightarrow>
            (None, cmd\<lparr>pstdin := StdinFile (File redirect)\<rparr>, file_Close (File redirect) w'))
     else if Op redirect = ''2>&1'' then
       (None, cmd\<lparr>pstderr := pstdout cmd\<rparr>, w)
     else if Op redirect = ''&>'' then
       (case os_Create h (File redirect) w of
          (Some e, w') \<Rightarrow>
            (Some (''failed to create file '' @ File redirect @ '': '' @ e), cmd, w')
        | (None, w') \<Rightarrow>
            (None,
             cmd\<lparr>pstdout := FileSink (File redirect), pstderr := FileSink (File redirect)\<rparr>,
             file_Close (File redirect) w'))
     else (Some (''unsupported redirect operator: '' @ Op redirect), cmd, w))"

section \<open>Process execution\<close>

definition exec_Command :: "CommandNode \<Rightarrow> World \<Rightarrow> ProcRequest" where
  "exec_Command cmd w =
     \<lparr>pname = Name cmd, pargs = Args cmd, penv = environment w, pdir = workingDir w,
      pstdin = NoStdin, pstdout = NoSink, pstderr = NoSink\<rparr>"

text \<open>What a started child leaves behind.\<close>

definition child_effects :: "ProcOutcome \<Rightarrow> World \<Rightarrow> World" where
  "child_effects out w =
     w\<lparr>files := files_after out, dirs := dirs_after out, clock := clock w + elapsed out\<rparr>"

text \<open>
  The error of \<^verbatim>\<open>command.Run()\<close>: that of \<^verbatim>\<open>Start\<close> (never an \<^verbatim>\<open>ExitError\<close>),
  or else that of \<^verbatim>\<open>Wait\<close>.
\<close>

definition run_error :: "ProcOutcome \<Rightarrow> WaitStatus" where
  "run_error out =
     (case start_error out of Some e \<Rightarrow> WaitOther e | None \<Rightarrow> wait_status out)"

definition exit_code_of :: "WaitStatus \<Rightarrow> int" where
  "exit_code_of err = (case err of WaitOK \<Rightarrow> 0 | WaitExit c \<Rightarrow> c | WaitOther e \<Rightarrow> 1)"

definition captured :: "OutSink \<Rightarrow> string \<Rightarrow> string" where
  "captured sink text = (if sink = Capture then text else '''')"

definition command_Run :: "Host \<Rightarrow> ProcRequest \<Rightarrow> World \<Rightarrow> ProcOutcome \<times> World" where
  "command_Run h cmd w =
     (let out = RunProcess h w cmd;
          w1 = log_call (ProcStart cmd) w
      in (out, if start_error out = None then child_effects out w1 else w1))"

definition run_and_collect ::
  "Host \<Rightarrow> CommandNode \<Rightarrow> ProcRequest \<Rightarrow> World \<Rightarrow> (fatal + CommandResult) \<times> World" where
  "run_and_collect h cmd command w =
     (case command_Run h command w of
        (out, w1) \<Rightarrow>
          (let err = run_error out;
               result = \<lparr>Command = cmd, Success = (err = WaitOK), ExitCode = exit_code_of err,
                         Output = captured (pstdout command) (out_text out),
                         Error = captured (pstderr command) (err_text out),
                         Duration = clock w1 - clock w, Mode = ModeInterpreted\<rparr>
           in if err = WaitOK \<and> Redirect cmd = None
              then (Inr result,
                    (log_call (CachePut (Name cmd) (Args cmd) result) w1)
                      \<lparr>cache := cache_Put (cache w1) (clock w1) (Name cmd) (Args cmd) result\<rparr>)
              else (Inr result, w1)))"

definition spawn_process ::
  "Host \<Rightarrow> CommandNode \<Rightarrow> World \<Rightarrow> (fatal + CommandResult) \<times> World" where
  "spawn_process h cmd w =
     (case Redirect cmd of
        Some redirect \<Rightarrow>
          (case setupRedirect h (exec_Command cmd w) redirect w of
             (Some e, command, w') \<Rightarrow>
               (Inr ((zero_result cmd)
                      \<lparr>Success := False, ExitCode := 1, Error := ''redirect error: '' @ e\<rparr>), w')
           | (None, command, w') \<Rightarrow> run_and_collect h cmd command w')
      | None \<Rightarrow>
          run_and_collect h cmd ((exec_Command cmd w)\<lparr>pstdout := Capture, pstderr := Capture\<rparr>) w)"

text \<open>
  \<^verbatim>\<open>executeProcess\<close>: the cache is asked first, only for a command without redirect;
  \<open>spawn_process\<close> is the rest of its body, \<open>run_and_collect\<close> the part from
  \<^verbatim>\<open>command.Run()\<close> on.
\<close>

definition executeProcess ::
  "Host \<Rightarrow> CommandNode \<Rightarrow> World \<Rightarrow> (fatal + CommandResult) \<times> World" where
  "executeProcess h cmd w =
     (if Redirect cmd = None then
        (case cache_Get (cache w) (clock w) (Name cmd) (Args cmd) of
           (Some cached, c') \<Rightarrow>
             (Inr cached, (log_call (CacheGet (Name cmd) (Args cmd)) w)\<lparr>cache := c'\<rparr>)
         | (None, c') \<Rightarrow>
             spawn_process h cmd ((log_call (CacheGet (Name cmd) (Args cmd)) w)\<lparr>cache := c'\<rparr>))
      else spawn_process h cmd w)"

definition executeHybrid ::
  "Host \<Rightarrow> CommandNode \<Rightarrow> World \<Rightarrow> (fatal + CommandResult) \<times> World" where
  "executeHybrid h cmd w = executeProcess h cmd w"

definition security_violation :: "CommandNode \<Rightarrow> string \<Rightarrow> nat \<Rightarrow> CommandResult" where
  "security_violation cmd e d =
     (zero_result cmd)\<lparr>Success := False, ExitCode := 1,
        Error := ''Security violation: '' @ e, Duration := d\<rparr>"

text \<open>
  \<^verbatim>\<open>ExecuteCommand\<close>. Its \<^verbatim>\<open>default\<close> branch (unknown execution mode) needs a mode
  outside the three constants, which \<^verbatim>\<open>decideExecutionMode\<close> never returns.
\<close>

definition ExecuteCommand ::
  "Host \<Rightarrow> CommandNode \<Rightarrow> World \<Rightarrow> (fatal + CommandResult) \<times> World" where
  "ExecuteCommand h cmd w =
     (let startTime = clock w; w0 = log_call (SecurityCheck cmd) w in
      case CheckCommand h cmd of
        Some e \<Rightarrow> (Inr (security_violation cmd e (clock w0 - startTime)), w0)
      | None \<Rightarrow>
          (let mode = decideExecutionMode (LookPath h) cmd in
           case (case mode of
                   ModeInterpreted \<Rightarrow> executeInterpreted h cmd w0
                 | ModeProcess \<Rightarrow> executeProcess h cmd w0
                 | ModeHybrid \<Rightarrow> executeHybrid h cmd w0) of
             (Inl err, w') \<Rightarrow> (Inl err, w')
           | (Inr result, w') \<Rightarrow>
               (Inr (result\<lparr>Duration := clock w' - startTime, Mode := mode\<rparr>), w')))"

section \<open>Pipelines\<close>

definition executeProcessWithInput ::
  "Host \<Rightarrow> CommandNode \<Rightarrow> string \<Rightarrow> World \<Rightarrow> (fatal + CommandResult) \<times> World" where
  "executeProcessWithInput h cmd input w =
     (let command = (exec_Command cmd w)
                      \<lparr>pstdin := StdinText input, pstdout := Capture, pstderr := Capture\<rparr>;
          out = RunProcess h w command
      in case pipe_error out of
           Some e \<Rightarrow> (Inl (Err (''failed to create stdin pipe: '' @ e)), w)
         | None \<Rightarrow>
             (let w1 = log_call (ProcStart command) w in
              case start_error out of
                Some e \<Rightarrow>
                  (Inr ((zero_result cmd)\<lparr>Success := False, ExitCode := 1, Error := e\<rparr>), w1)
              | None \<Rightarrow>
                  (let w2 = log_call (StdinWrite input) w1 in
                   case stdin_error out of
                     Some e \<Rightarrow>
                       (Inl (Err (''failed to write to stdin: '' @ e)), child_effects out w2)
                   | None \<Rightarrow>
                       (let err = wait_status out in
                        (Inr \<lparr>Command = cmd, Success = (err = WaitOK),
                              ExitCode = exit_code_of err, Output = out_text out,
                              Error = err_text out, Duration = 0, Mode = ModeInterpreted\<rparr>,
                         child_effects out w2)))))"

definition ExecuteCommandWithInput ::
  "Host \<Rightarrow> CommandNode \<Rightarrow> string \<Rightarrow> World \<Rightarrow> (fatal + CommandResult) \<times> World" where
  "ExecuteCommandWithInput h cmd input w =
     (let startTime = clock w; w0 = log_call (SecurityCheck cmd) w in
      case CheckCommand h cmd of
        Some e \<Rightarrow> (Inr (security_violation cmd e (clock w0 - startTime)), w0)
      | None \<Rightarrow>
          (case executeProcessWithInput h cmd input w0 of
             (Inl err, w') \<Rightarrow> (Inl err, w')
           | (Inr result, w') \<Rightarrow>
               (Inr (result\<lparr>Duration := clock w' - startTime, Mode := ModeProcess\<rparr>), w')))"

fun collectPipelineCommands :: "Node \<Rightarrow> CommandNode list" where
  "collectPipelineCommands (PipeNode l r) =
     collectPipelineCommands l @ collectPipelineCommands r"
| "collectPipelineCommands (CommandN c) = [c]"
| "collectPipelineCommands _ = []"

text \<open>
  The loop of \<^verbatim>\<open>ExecutePipeline\<close> over the stages still to run, with the loop index
  \<open>i\<close>, \<^verbatim>\<open>previousOutput\<close> and \<^verbatim>\<open>results\<close>; its last equation is the code after
  the loop, where \<^verbatim>\<open>results[len(results)-1]\<close> panics on an empty slice.
\<close>

fun pipeline_loop ::
  "Host \<Rightarrow> CommandNode list \<Rightarrow> nat \<Rightarrow> string \<Rightarrow> CommandResult list \<Rightarrow> World \<Rightarrow>
   (fatal + PipelineResult) \<times> World" where
  "pipeline_loop h (cmd # cmds) i previousOutput results w =
     (case (if i = 0 then ExecuteCommand h cmd w
            else ExecuteCommandWithInput h cmd previousOutput w) of
        (Inl err, w') \<Rightarrow> (Inl err, w')
      | (Inr result, w') \<Rightarrow>
          (if \<not> Success result
           then (Inr \<lparr>PSuccess = False, PExitCode = ExitCode result, POutput = Output result,
                      PError = Error result, Results = results @ [result]\<rparr>, w')
           else pipeline_loop h cmds (i + 1) (Output result) (results @ [result]) w'))"
| "pipeline_loop h [] i previousOutput results w =
     (if results = []
      then (Inl (Panic ''runtime error: index out of range [-1]''), w)
      else (Inr \<lparr>PSuccess = True, PExitCode = 0, POutput = Output (last results),
                 PError = '''', Results = results\<rparr>, w))"

definition ExecutePipeline ::
  "Host \<Rightarrow> Node \<Rightarrow> World \<Rightarrow> (fatal + PipelineResult) \<times> World" where
  "ExecutePipeline h pipeline w =
     pipeline_loop h (collectPipelineCommands pipeline) 0 '''' [] w"

section \<open>Conditions\<close>

fun evaluateCondition :: "Host \<Rightarrow> Node \<Rightarrow> World \<Rightarrow> (fatal + bool) \<times> World" where
  "evaluateCondition h (CommandN n) w =
     (case ExecuteCommand h n w of
        (Inl err, w') \<Rightarrow> (Inl err, w')
      | (Inr cmdResult, w') \<Rightarrow> (Inr (Success cmdResult \<and> ExitCode cmdResult = 0), w'))"
| "evaluateCondition h condition w =
     (Inl (Err (''unsupported condition node type: '' @ type_name condition)), w)"

section \<open>Control flow and the script loop\<close>

text \<open>
  \<^verbatim>\<open>Execute\<close> and the handlers of \<^verbatim>\<open>if\<close>, \<^verbatim>\<open>for\<close> and \<^verbatim>\<open>while\<close> call each
  other. Each Go loop is a recursive function over what is left of it, carrying the
  \<^verbatim>\<open>result\<close> built so far: \<open>Execute_loop\<close> is the \<^verbatim>\<open>for ... range script.Nodes\<close>
  of \<^verbatim>\<open>Execute\<close>, \<open>ExecuteFor_loop\<close> the loop over the items, \<open>ExecuteWhile_loop\<close> the
  \<^verbatim>\<open>for\<close> of \<^verbatim>\<open>ExecuteWhile\<close> with its counter \<^verbatim>\<open>iterations\<close> (incremented
  before the condition is evaluated).

  In \<^verbatim>\<open>Execute\<close>, each \<^verbatim>\<open>case\<close> of the type switch appends the results and, on a
  failing result, sets \<^verbatim>\<open>Success\<close> and \<^verbatim>\<open>ExitCode\<close> and executes \<^verbatim>\<open>break\<close>: this is
  \<open>absorb\<close>. A Go \<^verbatim>\<open>break\<close> inside a \<^verbatim>\<open>switch\<close> leaves the \<^verbatim>\<open>switch\<close>, not the
  enclosing \<^verbatim>\<open>for\<close>, so the loop goes on with the next node in either case.
\<close>

definition maxIterations :: nat where
  "maxIterations = 10000"

definition empty_result :: ExecutionResult where
  "empty_result =
     \<lparr>ESuccess = False, EExitCode = 0, EOutput = '''', EError = '''', EDuration = 0,
      Commands = []\<rparr>"

definition absorb ::
  "CommandResult list \<Rightarrow> bool \<Rightarrow> int \<Rightarrow> ExecutionResult \<Rightarrow> ExecutionResult" where
  "absorb rs ok code result =
     (let r1 = result\<lparr>Commands := Commands result @ rs\<rparr>
      in if \<not> ok then r1\<lparr>ESuccess := False, EExitCode := code\<rparr> else r1)"

text \<open>
  The arguments of the seven mutually recursive functions below, as the sum the function
  package builds, with the two measures of their termination: the size of the script a
  call still has to walk, then the position of the call inside that script (for the
  loops, the items or iterations left).
\<close>

type_synonym exec_args =
  "((Host \<times> ScriptNode \<times> World) +
    (Host \<times> Node list \<times> ExecutionResult \<times> World) +
    (Host \<times> Node \<times> ScriptNode \<times> ScriptNode option \<times> World)) +
   ((Host \<times> string \<times> string list \<times> ScriptNode \<times> World) +
    (Host \<times> string \<times> string list \<times> ScriptNode \<times> ExecutionResult \<times> World)) +
   ((Host \<times> Node \<times> ScriptNode \<times> World) +
    (Host \<times> Node \<times> ScriptNode \<times> nat \<times> ExecutionResult \<times> World))"

fun exec_size :: "exec_args \<Rightarrow> nat" where
  "exec_size (Inl (Inl (h, script, w))) = size_list size script"
| "exec_size (Inl (Inr (Inl (h, nodes, result, w)))) = size_list size nodes"
| "exec_size (Inl (Inr (Inr (h, c, t, e, w)))) = size (IfNode c t e)"
| "exec_size (Inr (Inl (Inl (h, v, xs, b, w)))) = size_list size b + 1"
| "exec_size (Inr (Inl (Inr (h, v, xs, b, result, w)))) = size_list size b + 1"
| "exec_size (Inr (Inr (Inl (h, c, b, w)))) = size_list size b + 1"
| "exec_size (Inr (Inr (Inr (h, c, b, iterations, result, w)))) = size_list size b + 1"

fun exec_rank :: "exec_args \<Rightarrow> nat" where
  "exec_rank (Inl (Inl (h, script, w))) = 1"
| "exec_rank (Inl (Inr (Inl (h, nodes, result, w)))) = 0"
| "exec_rank (Inl (Inr (Inr (h, c, t, e, w)))) = 0"
| "exec_rank (Inr (Inl (Inl (h, v, xs, b, w)))) = length xs + 1"
| "exec_rank (Inr (Inl (Inr (h, v, xs, b, result, w)))) = length xs"
| "exec_rank (Inr (Inr (Inl (h, c, b, w)))) = maxIterations + 1"
| "exec_rank (Inr (Inr (Inr (h, c, b, iterations, result, w)))) = maxIterations - iterations"

function (sequential)
  Execute :: "Host \<Rightarrow> ScriptNode \<Rightarrow> World \<Rightarrow> (fatal + ExecutionResult) \<times> World"
and Execute_loop ::
  "Host \<Rightarrow> Node list \<Rightarrow> ExecutionResult \<Rightarrow> World \<Rightarrow> (fatal + ExecutionResult) \<times> World"
and ExecuteIf ::
  "Host \<Rightarrow> Node \<Rightarrow> ScriptNode \<Rightarrow> ScriptNode option \<Rightarrow> World \<Rightarrow>
   (fatal + ExecutionResult) \<times> World"
and ExecuteFor ::
  "Host \<Rightarrow> string \<Rightarrow> string list \<Rightarrow> ScriptNode \<Rightarrow> World \<Rightarrow>
   (fatal + ExecutionResult) \<times> World"
and ExecuteFor_loop ::
  "Host \<Rightarrow> string \<Rightarrow> string list \<Rightarrow> ScriptNode \<Rightarrow> ExecutionResult \<Rightarrow> World \<Rightarrow>
   (fatal + ExecutionResult) \<times> World"
and ExecuteWhile ::
  "Host \<Rightarrow> Node \<Rightarrow> ScriptNode \<Rightarrow> World \<Rightarrow> (fatal + ExecutionResult) \<times> World"
and ExecuteWhile_loop ::
  "Host \<Rightarrow> Node \<Rightarrow> ScriptNode \<Rightarrow> nat \<Rightarrow> ExecutionResult \<Rightarrow> World \<Rightarrow>
   (fatal + ExecutionResult) \<times> World"
where
  "Execute h script w =
     (let startTime = clock w in
      case Execute_loop h script empty_result w of
        (Inl err, w') \<Rightarrow> (Inl err, w')
      | (Inr result, w') \<Rightarrow>
          (Inr (result\<lparr>EDuration := clock w' - startTime, ESuccess := True\<rparr>), w'))"
| "Execute_loop h [] result w = (Inr result, w)"
| "Execute_loop h (CommandN n # nodes) result w =
     (case ExecuteCommand h n w of
        (Inl err, w') \<Rightarrow> (Inl err, w')
      | (Inr cmdResult, w') \<Rightarrow>
          Execute_loop h nodes
            (absorb [cmdResult] (Success cmdResult) (ExitCode cmdResult) result) w')"
| "Execute_loop h (PipeNode l r # nodes) result w =
     (case ExecutePipeline h (PipeNode l r) w of
        (Inl err, w') \<Rightarrow> (Inl err, w')
      | (Inr pipeResult, w') \<Rightarrow>
          Execute_loop h nodes
            (absorb (Results pipeResult) (PSuccess pipeResult) (PExitCode pipeResult) result) w')"
| "Execute_loop h (IfNode c t e # nodes) result w =
     (case ExecuteIf h c t e w of
        (Inl err, w') \<Rightarrow> (Inl err, w')
      | (Inr ifResult, w') \<Rightarrow>
          Execute_loop h nodes
            (absorb (Commands ifResult) (ESuccess ifResult) (EExitCode ifResult) result) w')"
| "Execute_loop h (ForNode v xs b # nodes) result w =
     (case ExecuteFor h v xs b w of
        (Inl err, w') \<Rightarrow> (Inl err, w')
      | (Inr forResult, w') \<Rightarrow>
          Execute_loop h nodes
            (absorb (Commands forResult) (ESuccess forResult) (EExitCode forResult) result) w')"
| "Execute_loop h (WhileNode c b # nodes) result w =
     (case ExecuteWhile h c b w of
        (Inl err, w') \<Rightarrow> (Inl err, w')
      | (Inr whileResult, w') \<Rightarrow>
          Execute_loop h nodes
            (absorb (Commands whileResult) (ESuccess whileResult) (EExitCode whileResult)
               result) w')"
| "Execute_loop h (AssignmentNode k v # nodes) result w =
     Execute_loop h nodes result (w\<lparr>environment := (environment w)(k \<mapsto> v)\<rparr>)"
| "Execute_loop h (FunctionNode f b # nodes) result w = Execute_loop h nodes result w"
| "Execute_loop h (n # nodes) result w =
     (Inl (Err (''unsupported node type: '' @ type_name n)), w)"
| "ExecuteIf h condition thn els w =
     (case evaluateCondition h condition w of
        (Inl err, w') \<Rightarrow> (Inl err, w')
      | (Inr conditionResult, w') \<Rightarrow>
          (if conditionResult then Execute h thn w'
           else (case els of
                   Some e \<Rightarrow> Execute h e w'
                 | None \<Rightarrow> (Inr (empty_result\<lparr>ESuccess := True, EExitCode := 0\<rparr>), w'))))"
| "ExecuteFor h v xs body w = ExecuteFor_loop h v xs body empty_result w"
| "ExecuteFor_loop h v [] body result w =
     (Inr (result\<lparr>ESuccess := True, EExitCode := 0\<rparr>), w)"
| "ExecuteFor_loop h v (item # items) body result w =
     (case Execute h body (w\<lparr>environment := (environment w)(v \<mapsto> item)\<rparr>) of
        (Inl err, w') \<Rightarrow> (Inl err, w')
      | (Inr loopResult, w') \<Rightarrow>
          (if \<not> ESuccess loopResult
           then (Inr (result\<lparr>Commands := Commands result @ Commands loopResult,
                        ESuccess := False, EExitCode := EExitCode loopResult\<rparr>), w')
           else ExecuteFor_loop h v items body
                  (result\<lparr>Commands := Commands result @ Commands loopResult\<rparr>) w'))"
| "ExecuteWhile h condition body w = ExecuteWhile_loop h condition body 0 empty_result w"
| "ExecuteWhile_loop h condition body iterations result w =
     (if iterations \<ge> maxIterations
      then (Inl (Err ''while loop exceeded maximum iterations (10000)''), w)
      else
        (case evaluateCondition h condition w of
           (Inl err, w') \<Rightarrow> (Inl err, w')
         | (Inr conditionResult, w') \<Rightarrow>
             (if \<not> conditionResult
              then (Inr (result\<lparr>ESuccess := True, EExitCode := 0\<rparr>), w')
              else
                (case Execute h body w' of
                   (Inl err, w'') \<Rightarrow> (Inl err, w'')
                 | (Inr loopResult, w'') \<Rightarrow>
                     (if \<not> ESuccess loopResult
                      then (Inr (result\<lparr>Commands := Commands result @ Commands loopResult,
                                   ESuccess := False, EExitCode := EExitCode loopResult\<rparr>), w'')
                      else ExecuteWhile_loop h condition body (iterations + 1)
                             (result\<lparr>Commands := Commands result @ Commands loopResult\<rparr>)
                             w'')))))"
  by pat_completeness auto
termination
  by (relation "measures [exec_size, exec_rank]") (auto simp: maxIterations_def)

text \<open>
  The equation of \<open>ExecuteWhile_loop\<close> rewrites the loop into itself; it is applied by
  hand, one iteration at a time.
\<close>

declare ExecuteWhile_loop.simps [simp del]


section \<open>Auxiliary notions for the properties\<close>

text \<open>
  The intrinsics that check their argument count, with the count each one requires, and
  those that accept an empty argument list.
\<close>

definition required_args :: "(string \<times> nat) list" where
  "required_args =
     [(''ReadFile'', 1), (''WriteFile'', 2), (''FileExists'', 1), (''Contains'', 2),
      (''Replace'', 3), (''GetEnv'', 1), (''SetEnv'', 2), (''ChangeDir'', 1)]"

definition optional_arg_intrinsics :: "string list" where
  "optional_arg_intrinsics =
     [''Print'', ''Println'', ''Error'', ''Errorln'', ''ToUpper'', ''ToLower'', ''Trim'']"

definition supported_redirects :: "string list" where
  "supported_redirects = [''>'', ''>>'', ''<'', ''2>&1'', ''&>'']"

text \<open>The calls a step adds to the log of a world \<open>w\<close>, given the world \<open>w'\<close> after it.\<close>

definition new_calls :: "World \<Rightarrow> World \<Rightarrow> Event list" where
  "new_calls w w' = drop (length (calls w)) (calls w')"

fun is_cache_call :: "Event \<Rightarrow> bool" where
  "is_cache_call (CacheGet n a) = True"
| "is_cache_call (CachePut n a r) = True"
| "is_cache_call _ = False"

fun is_proc_start :: "Event \<Rightarrow> bool" where
  "is_proc_start (ProcStart q) = True"
| "is_proc_start _ = False"

fun is_stdin_write :: "Event \<Rightarrow> bool" where
  "is_stdin_write (StdinWrite t) = True"
| "is_stdin_write _ = False"


text \<open>
  The request of a pipeline stage that reads \<open>input\<close>: the command's name and arguments,
  the engine's environment and working directory, the input text on standard input, both
  output streams captured.
\<close>

definition piped_request :: "CommandNode \<Rightarrow> string \<Rightarrow> World \<Rightarrow> ProcRequest" where
  "piped_request cmd input w =
     \<lparr>pname = Name cmd, pargs = Args cmd, penv = environment w, pdir = workingDir w,
      pstdin = StdinText input, pstdout = Capture, pstderr = Capture\<rparr>"

text \<open>
  The invariant of the cache: every entry holds the result of a command without redirect
  that succeeded with exit code 0.
\<close>

definition eligible :: "CommandResult \<Rightarrow> bool" where
  "eligible r \<longleftrightarrow> Redirect (Command r) = None \<and> Success r \<and> ExitCode r = 0"

definition cache_ok :: "CommandCache \<Rightarrow> bool" where
  "cache_ok c \<longleftrightarrow> list_all (\<lambda>e. eligible (ce_result e)) (entries c)"



text \<open>One round of a while loop: the condition, then the body.\<close>

definition while_round :: "Host \<Rightarrow> Node \<Rightarrow> ScriptNode \<Rightarrow> World \<Rightarrow> World" where
  "while_round h condition body w = snd (Execute h body (snd (evaluateCondition h condition w)))"

text \<open>
  What the host answers to the request of a stage that reads \<open>input\<close>, asked once the
  security check of the stage is logged.
\<close>

definition host_answer :: "Host \<Rightarrow> CommandNode \<Rightarrow> string \<Rightarrow> World \<Rightarrow> ProcOutcome" where
  "host_answer h cmd input w =
     RunProcess h (log_call (SecurityCheck cmd) w) (piped_request cmd input w)"

text \<open>The result of a stage whose process was started and fed, read off the host's answer.\<close>

definition piped_result :: "CommandNode \<Rightarrow> ProcOutcome \<Rightarrow> CommandResult" where
  "piped_result cmd out =
     \<lparr>Command = cmd, Success = (wait_status out = WaitOK),
      ExitCode = (case wait_status out of WaitOK \<Rightarrow> 0 | WaitExit c \<Rightarrow> c | WaitOther e \<Rightarrow> 1),
      Output = out_text out, Error = err_text out, Duration = elapsed out,
      Mode = ModeProcess\<rparr>"

text \<open>The world after the start of a stage's process was asked of the host.\<close>

definition after_start :: "CommandNode \<Rightarrow> string \<Rightarrow> World \<Rightarrow> World" where
  "after_start cmd input w =
     log_call (ProcStart (piped_request cmd input w)) (log_call (SecurityCheck cmd) w)"

text \<open>The world after the input was written to a started stage and the stage has run.\<close>

definition after_run :: "CommandNode \<Rightarrow> string \<Rightarrow> ProcOutcome \<Rightarrow> World \<Rightarrow> World" where
  "after_run cmd input out w =
     child_effects out (log_call (StdinWrite input) (after_start cmd input w))"

section \<open>A sample host\<close>

text \<open>
  A small host to run the engine on: its policy rejects \<^verbatim>\<open>rm\<close>; its search path holds
  \<^verbatim>\<open>echo\<close>, \<^verbatim>\<open>cat\<close>, \<^verbatim>\<open>false\<close> and \<^verbatim>\<open>true\<close>; \<^verbatim>\<open>true\<close> has exited before
  piped input reaches it; no pipe can be made once 1024 handles are open; its file system never
  refuses a call; its string functions are the ASCII ones.
\<close>

definition pos0 :: Position where
  "pos0 = \<lparr>Line = 1, Column = 1, Offset = 0\<rparr>"

definition command :: "string \<Rightarrow> string list \<Rightarrow> CommandNode" where
  "command n as = \<lparr>Pos = pos0, Name = n, Args = as, Redirect = None\<rparr>"

definition redirected :: "CommandNode \<Rightarrow> string \<Rightarrow> string \<Rightarrow> int \<Rightarrow> CommandNode" where
  "redirected c opr path fd =
     c\<lparr>Redirect := Some \<lparr>RPos = pos0, Op = opr, File = path, Fd = fd\<rparr>\<rparr>"

fun has_sub :: "string \<Rightarrow> string \<Rightarrow> bool" where
  "has_sub [] sub = (sub = [])"
| "has_sub (c # cs) sub = (take (length sub) (c # cs) = sub \<or> has_sub cs sub)"

function replace_all :: "string \<Rightarrow> string \<Rightarrow> string \<Rightarrow> string" where
  "replace_all s old new =
     (if old = [] then new @ concat (map (\<lambda>c. c # new) s)
      else if s = [] then []
      else if take (length old) s = old then new @ replace_all (drop (length old) s) old new
      else hd s # replace_all (tl s) old new)"
  by pat_completeness auto
termination
  by (relation "measure (\<lambda>(s, old, new). length s)") (auto simp: length_greater_0_conv)

definition ascii_upper :: "char \<Rightarrow> char" where
  "ascii_upper c =
     (let n = (of_char c :: nat) in if 97 \<le> n \<and> n \<le> 122 then char_of (n - 32) else c)"

definition ascii_lower :: "char \<Rightarrow> char" where
  "ascii_lower c =
     (let n = (of_char c :: nat) in if 65 \<le> n \<and> n \<le> 90 then char_of (n + 32) else c)"

definition is_space :: "char \<Rightarrow> bool" where
  "is_space c \<longleftrightarrow> (of_char c :: nat) \<in> {9, 10, 11, 12, 13, 32}"

definition trim_space :: "string \<Rightarrow> string" where
  "trim_space s = rev (dropWhile is_space (rev (dropWhile is_space s)))"

definition sample_process :: "World \<Rightarrow> ProcRequest \<Rightarrow> ProcOutcome" where
  "sample_process w req =
     (let ran = \<lparr>pipe_error = (if 1024 \<le> length (open_handles w)
                               then Some ''pipe: too many open files'' else None),
                 start_error = None, stdin_error = None,
                 wait_status = WaitOK, out_text = '''', err_text = '''',
                 files_after = files w, dirs_after = dirs w, elapsed = 1\<rparr>
      in if pname req = ''echo''
           then ran\<lparr>out_text := strings_Join (pargs req) '' '' @ [CHR 0x0A]\<rparr>
         else if pname req = ''cat''
           then ran\<lparr>out_text := (case pstdin req of StdinText t \<Rightarrow> t | _ \<Rightarrow> '''')\<rparr>
         else if pname req = ''false''
           then ran\<lparr>wait_status := WaitExit 1\<rparr>
         else if pname req = ''true''
           then ran\<lparr>stdin_error :=
                      (case pstdin req of
                         StdinText t \<Rightarrow> Some ''write |1: broken pipe''
                       | _ \<Rightarrow> None)\<rparr>
         else ran\<lparr>start_error :=
                    Some (''exec: '' @ pname req @ '': executable file not found in $PATH''),
                  elapsed := 0\<rparr>)"

definition sample_host :: Host where
  "sample_host =
     \<lparr>CheckCommand = (\<lambda>cmd. if Name cmd = ''rm'' then Some ''dangerous command: rm'' else None),
      LookPath = (\<lambda>n. n \<in> set [''echo'', ''cat'', ''false'', ''true'']),
      RunProcess = sample_process,
      FsError = (\<lambda>w opn path. None),
      strings_Contains = has_sub,
      strings_ReplaceAll = replace_all,
      strings_ToUpper = map ascii_upper,
      strings_ToLower = map ascii_lower,
      strings_TrimSpace = trim_space\<rparr>"

definition empty_cache :: CommandCache where
  "empty_cache = \<lparr>entries = [], maxSize = 1000, ttl = 300\<rparr>"

definition sample_world :: World where
  "sample_world =
     \<lparr>environment = Map.empty, workingDir = ''/'', os_environ = Map.empty, os_cwd = ''/'',
      files = Map.empty, dirs = [''/'' \<mapsto> []], open_handles = [], cache = empty_cache,
      clock = 0, host_stdout = '''', host_stderr = '''', calls = []\<rparr>"

section \<open>Sample inputs\<close>

definition three_commands :: ScriptNode where
  "three_commands =
     [CommandN (command ''Print'' [''a'']), CommandN (command ''ReadFile'' []),
      CommandN (command ''Print'' [''c''])]"

definition print_X_to_f :: CommandNode where
  "print_X_to_f = redirected (command ''Print'' [''X'']) ''>'' ''f'' 1"

definition print_X_bad_operator :: CommandNode where
  "print_X_bad_operator = redirected (command ''Print'' [''X'']) ''<<<'' ''f'' 0"

definition print_X_from_missing :: CommandNode where
  "print_X_from_missing = redirected (command ''Print'' [''X'']) ''<'' ''missing'' 0"

definition cat_bad_operator :: CommandNode where
  "cat_bad_operator = redirected (command ''cat'' []) ''<<<'' ''f'' 0"

text \<open>The sample world with 1024 handles open, where no pipe can be made.\<close>

definition crowded_world :: World where
  "crowded_world = sample_world\<lparr>open_handles := replicate 1024 ''/dev/null''\<rparr>"


definition echo_rm_pipeline :: Node where
  "echo_rm_pipeline =
     PipeNode (CommandN (command ''echo'' [''hi''])) (CommandN (command ''rm'' [''x'']))"

definition always_failing_loop :: "Node \<times> ScriptNode" where
  "always_failing_loop =
     (CommandN (command ''Print'' [''x'']), [CommandN (command ''ReadFile'' [])])"





definition rm_result :: CommandResult where
  "rm_result = security_violation (command ''rm'' [''x'']) ''dangerous command: rm'' 0"

section \<open>Unfolding the engine on the sample host\<close>

text \<open>The definitions a run on the sample host unfolds, collected by layer.\<close>

lemmas sample_defs =
  command_def redirected_def pos0_def sample_host_def sample_world_def empty_cache_def
  sample_process_def

lemmas interp_defs =
  ExecuteCommand_def decideExecutionMode_def isStdLibFunction_def stdlibFunctions_def
  executeInterpreted_def executeStdLibFunction_def zero_result_def log_call_def
  Print_def security_violation_def

lemmas process_defs =
  executeProcess_def spawn_process_def run_and_collect_def command_Run_def cache_Get_def
  cache_Put_def run_error_def exit_code_of_def exec_Command_def child_effects_def captured_def
  key_matches_def

lemmas pipe_defs =
  ExecutePipeline_def ExecuteCommandWithInput_def executeProcessWithInput_def

section \<open>Properties of mode selection\<close>

lemma isStdLibFunction_iff: "isStdLibFunction n \<longleftrightarrow> n \<in> set intrinsic_names"
  by (simp add: isStdLibFunction_def stdlibFunctions_def intrinsic_names_def)

text \<open>
  C5. \<^verbatim>\<open>decideExecutionMode\<close> answers Interpreted exactly for the 17 names of the
  intrinsic registry, whatever the search path resolves, and Process for every other name.
\<close>

theorem decideExecutionMode_registry:
  "length intrinsic_names = 17 \<and> distinct intrinsic_names \<and>
   (decideExecutionMode lookPath cmd = ModeInterpreted \<longleftrightarrow> Name cmd \<in> set intrinsic_names) \<and>
   (decideExecutionMode lookPath cmd = ModeProcess \<longleftrightarrow> Name cmd \<notin> set intrinsic_names)"
  by (simp add: decideExecutionMode_def isStdLibFunction_iff)
     (simp add: intrinsic_names_def)

section \<open>Failures of a single command\<close>

lemma executeInterpreted_no_fatal:
  "\<exists>r w'. executeInterpreted h cmd w = (Inr r, w')"
  by (auto simp: executeInterpreted_def split: prod.splits option.splits)

lemma run_and_collect_no_fatal:
  "\<exists>r w'. run_and_collect h cmd req w = (Inr r, w')"
  by (auto simp: run_and_collect_def Let_def split: prod.splits)

lemma spawn_process_no_fatal:
  "\<exists>r w'. spawn_process h cmd w = (Inr r, w')"
  using run_and_collect_no_fatal
  by (auto simp: spawn_process_def split: option.splits prod.splits)

lemma executeProcess_no_fatal:
  "\<exists>r w'. executeProcess h cmd w = (Inr r, w')"
  using spawn_process_no_fatal
  by (auto simp: executeProcess_def split: option.splits prod.splits)

lemma ExecuteCommand_no_fatal:
  "\<exists>r w'. ExecuteCommand h cmd w = (Inr r, w')"
proof (cases "CheckCommand h cmd")
  case (Some e)
  then show ?thesis by (simp add: ExecuteCommand_def Let_def)
next
  case None
  obtain r1 w1 where i: "executeInterpreted h cmd (log_call (SecurityCheck cmd) w) = (Inr r1, w1)"
    using executeInterpreted_no_fatal by blast
  obtain r2 w2 where p: "executeProcess h cmd (log_call (SecurityCheck cmd) w) = (Inr r2, w2)"
    using executeProcess_no_fatal by blast
  show ?thesis
    using None i p
    by (cases "decideExecutionMode (LookPath h) cmd")
       (simp_all add: ExecuteCommand_def Let_def executeHybrid_def)
qed

lemma rejected_command:
  assumes "CheckCommand h cmd = Some e"
  shows "ExecuteCommand h cmd w =
           (Inr (security_violation cmd e 0), log_call (SecurityCheck cmd) w)"
  using assms by (simp add: ExecuteCommand_def Let_def log_call_def)

lemma accepted_process_command:
  assumes "CheckCommand h cmd = None" "\<not> isStdLibFunction (Name cmd)"
      and "executeProcess h cmd (log_call (SecurityCheck cmd) w) = (Inr r, w')"
  shows "ExecuteCommand h cmd w =
           (Inr (r\<lparr>Duration := clock w' - clock w, Mode := ModeProcess\<rparr>), w')"
  using assms
  by (simp add: ExecuteCommand_def Let_def decideExecutionMode_def)

lemma redirect_error_result:
  assumes "Redirect cmd = Some rd"
      and "setupRedirect h (exec_Command cmd w) rd w = (Some e, req, w1)"
  shows "executeProcess h cmd w =
           (Inr ((zero_result cmd)
                   \<lparr>Success := False, ExitCode := 1, Error := ''redirect error: '' @ e\<rparr>), w1)"
  using assms by (simp add: executeProcess_def spawn_process_def)

lemma unsupported_redirect:
  assumes "Op rd \<notin> set supported_redirects"
  shows "setupRedirect h req rd w =
           (Some (''unsupported redirect operator: '' @ Op rd), req, w)"
  using assms by (simp add: setupRedirect_def supported_redirects_def)

lemma run_and_collect_status:
  "\<exists>r w'. run_and_collect h cmd req w = (Inr r, w') \<and>
     (case run_error (RunProcess h w req) of
        WaitOK \<Rightarrow> Success r \<and> ExitCode r = 0
      | WaitExit c \<Rightarrow> \<not> Success r \<and> ExitCode r = c
      | WaitOther msg \<Rightarrow> \<not> Success r \<and> ExitCode r = 1)"
  by (auto simp: run_and_collect_def command_Run_def Let_def exit_code_of_def
           split: WaitStatus.splits)

text \<open>
  C4. The specification requires that every recoverable failure of a command, an
  unsupported or failing redirect among them, comes back as a result with
  \<open>success = false\<close> and exit code 1. For a command that runs as an intrinsic the code
  never looks at the redirect: with an unsupported operator, or with an input file that
  does not exist, \<^verbatim>\<open>Print\<close> succeeds with exit code 0. The process path reports the
  same unsupported operator as a failure with exit code 1.
\<close>

theorem intrinsic_redirect_failure_unreported:
  "(\<exists>r w'. ExecuteCommand sample_host print_X_bad_operator sample_world = (Inr r, w') \<and>
      Success r \<and> ExitCode r = 0 \<and> Error r = '''' \<and> Output r = ''X'') \<and>
   (\<exists>r w'. ExecuteCommand sample_host print_X_from_missing sample_world = (Inr r, w') \<and>
      Success r \<and> ExitCode r = 0 \<and> Error r = '''' \<and> Output r = ''X'') \<and>
   (\<exists>r w'. ExecuteCommand sample_host cat_bad_operator sample_world = (Inr r, w') \<and>
      \<not> Success r \<and> ExitCode r = 1 \<and>
      Error r = ''redirect error: unsupported redirect operator: <<<'')"
  by (simp add: print_X_bad_operator_def print_X_from_missing_def cat_bad_operator_def
        sample_defs interp_defs executeProcess_def spawn_process_def setupRedirect_def)

section \<open>Interpreted intrinsics and their arguments\<close>

lemma too_few_fails:
  assumes "map_of required_args (Name cmd) = Some k" "length (Args cmd) < k"
  shows "\<exists>e. executeStdLibFunction h (Name cmd) (Args cmd) w = (('''', Some e), w)"
  using assms
  by (auto simp: required_args_def executeStdLibFunction_def split: if_splits)

lemma zero_args_ok:
  assumes "Name cmd \<in> set optional_arg_intrinsics" "Args cmd = []"
  shows "\<exists>w'. executeStdLibFunction h (Name cmd) (Args cmd) w = (('''', None), w')"
  using assms
  by (auto simp: optional_arg_intrinsics_def executeStdLibFunction_def)

text \<open>
  C10. An interpreted intrinsic never ends in a fatal error. Called with fewer arguments
  than it requires, \<^verbatim>\<open>ReadFile\<close>, \<^verbatim>\<open>WriteFile\<close>, \<^verbatim>\<open>FileExists\<close>, \<^verbatim>\<open>Contains\<close>,
  \<^verbatim>\<open>Replace\<close>, \<^verbatim>\<open>GetEnv\<close>, \<^verbatim>\<open>SetEnv\<close> and \<^verbatim>\<open>ChangeDir\<close> give a failed result with
  exit code 1 and leave the world as it was; called with no argument, \<^verbatim>\<open>Print\<close>,
  \<^verbatim>\<open>Println\<close>, \<^verbatim>\<open>Error\<close>, \<^verbatim>\<open>Errorln\<close>, \<^verbatim>\<open>ToUpper\<close>, \<^verbatim>\<open>ToLower\<close> and \<^verbatim>\<open>Trim\<close>
  succeed with exit code 0 and empty output.
\<close>

theorem intrinsic_arity:
  "(\<exists>r w'. executeInterpreted h cmd w = (Inr r, w')) \<and>
   (\<forall>k. map_of required_args (Name cmd) = Some k \<and> length (Args cmd) < k \<longrightarrow>
      (\<exists>r. executeInterpreted h cmd w = (Inr r, w) \<and> \<not> Success r \<and> ExitCode r = 1)) \<and>
   (Name cmd \<in> set optional_arg_intrinsics \<and> Args cmd = [] \<longrightarrow>
      (\<exists>r w'. executeInterpreted h cmd w = (Inr r, w') \<and>
         Success r \<and> ExitCode r = 0 \<and> Output r = ''''))"
proof (intro conjI allI impI)
  show "\<exists>r w'. executeInterpreted h cmd w = (Inr r, w')"
    by (rule executeInterpreted_no_fatal)
next
  fix k assume "map_of required_args (Name cmd) = Some k \<and> length (Args cmd) < k"
  then obtain e where "executeStdLibFunction h (Name cmd) (Args cmd) w = (('''', Some e), w)"
    using too_few_fails by blast
  then show "\<exists>r. executeInterpreted h cmd w = (Inr r, w) \<and> \<not> Success r \<and> ExitCode r = 1"
    by (simp add: executeInterpreted_def zero_result_def)
next
  assume "Name cmd \<in> set optional_arg_intrinsics \<and> Args cmd = []"
  then obtain w' where "executeStdLibFunction h (Name cmd) (Args cmd) w = (('''', None), w')"
    using zero_args_ok by blast
  then show "\<exists>r w'. executeInterpreted h cmd w = (Inr r, w') \<and>
         Success r \<and> ExitCode r = 0 \<and> Output r = ''''"
    by (simp add: executeInterpreted_def zero_result_def)
qed

theorem intrinsic_arity_witness:
  "(\<exists>r. executeInterpreted sample_host (command ''Replace'' [''a'', ''b'']) sample_world =
          (Inr r, sample_world) \<and> \<not> Success r \<and> ExitCode r = 1) \<and>
   (\<exists>r w'. executeInterpreted sample_host (command ''Println'' []) sample_world = (Inr r, w') \<and>
          Success r \<and> ExitCode r = 0 \<and> Output r = '''')"
proof (intro conjI)
  have "map_of required_args (Name (command ''Replace'' [''a'', ''b''])) = Some 3 \<and>
        length (Args (command ''Replace'' [''a'', ''b''])) < 3"
    by (simp add: required_args_def command_def)
  then show "\<exists>r. executeInterpreted sample_host (command ''Replace'' [''a'', ''b'']) sample_world =
          (Inr r, sample_world) \<and> \<not> Success r \<and> ExitCode r = 1"
    using intrinsic_arity
        [where h = sample_host and cmd = "command ''Replace'' [''a'', ''b'']"
           and w = sample_world, THEN conjunct2, THEN conjunct1]
    by blast
next
  have "Name (command ''Println'' []) \<in> set optional_arg_intrinsics \<and>
        Args (command ''Println'' []) = []"
    by (simp add: optional_arg_intrinsics_def command_def)
  then show "\<exists>r w'. executeInterpreted sample_host (command ''Println'' []) sample_world =
          (Inr r, w') \<and> Success r \<and> ExitCode r = 0 \<and> Output r = ''''"
    using intrinsic_arity
        [where h = sample_host and cmd = "command ''Println'' []" and w = sample_world,
         THEN conjunct2, THEN conjunct2]
    by blast
qed

section \<open>The script loop after a failing command\<close>

lemma Execute_reports_success:
  "Execute h script w = (Inr r, w') \<Longrightarrow> ESuccess r"
  by (auto simp: Let_def split: prod.splits sum.splits)

text \<open>
  In general: on a script of commands, \<^verbatim>\<open>Execute\<close> runs every command, whatever fails,
  and reports success.
\<close>

lemma Execute_loop_runs_every_command:
  "\<exists>r w'. Execute_loop h (map CommandN cs) res w = (Inr r, w') \<and>
     length (Commands r) = length (Commands res) + length cs"
proof (induction cs arbitrary: res w)
  case Nil
  then show ?case by simp
next
  case (Cons c cs)
  obtain r1 w1 where e: "ExecuteCommand h c w = (Inr r1, w1)"
    using ExecuteCommand_no_fatal by blast
  from Cons [of "absorb [r1] (Success r1) (ExitCode r1) res" w1] e
  show ?case by (auto simp: absorb_def Let_def)
qed

lemma Execute_runs_every_command:
  "\<exists>r w'. Execute h (map CommandN cs) w = (Inr r, w') \<and> ESuccess r \<and>
     length (Commands r) = length cs"
  using Execute_loop_runs_every_command [of h cs empty_result w]
  by (auto simp: Let_def empty_result_def)

text \<open>
  C1. The specification requires that \<^verbatim>\<open>Execute\<close> stops at the first failing
  top-level command and returns \<open>success = false\<close> with the results up to that command.
  Run on three commands of which the second fails, the code executes the third as well,
  returns all three results, keeps the failing exit code and reports success.
\<close>

theorem Execute_failure_no_short_circuit:
  "\<exists>r w'. Execute sample_host three_commands sample_world = (Inr r, w') \<and>
     ESuccess r \<and> EExitCode r = 1 \<and>
     map (\<lambda>c. (Name (Command c), Success c, ExitCode c)) (Commands r) =
       [(''Print'', True, 0), (''ReadFile'', False, 1), (''Print'', True, 0)] \<and>
     host_stdout w' = ''ac''"
  by (simp add: three_commands_def sample_defs interp_defs absorb_def empty_result_def)

section \<open>Redirection of an interpreted command\<close>

text \<open>
  Every handle \<^verbatim>\<open>setupRedirect\<close> opens is closed again when it returns, on its error
  paths as well: the table of open handles holds each path as often as before.
\<close>

lemma count_remove1_snoc:
  "count_list (remove1 x (xs @ [x])) y = count_list xs y"
  by (induction xs) auto

lemma setupRedirect_releases_handles:
  assumes "setupRedirect h req rd w = (e, req', w')"
  shows "count_list (open_handles w') path = count_list (open_handles w) path"
  using assms
  by (auto simp: setupRedirect_def os_Create_def os_OpenAppend_def os_Open_def
        open_handle_def file_Close_def log_call_def count_remove1_snoc
      split: if_splits option.splits)

text \<open>
  C7. The specification requires that \<^verbatim>\<open>Print "X" > f\<close> leaves \<^verbatim>\<open>X\<close> in the file
  \<^verbatim>\<open>f\<close>. The code runs \<^verbatim>\<open>Print\<close> as an intrinsic, and the interpreted path never
  reads the command's redirect: the text goes to the host's standard output, no file is
  opened, and \<^verbatim>\<open>f\<close> does not exist afterwards.
\<close>

theorem interpreted_redirect_ignored:
  "\<exists>r w'. ExecuteCommand sample_host print_X_to_f sample_world = (Inr r, w') \<and>
     Success r \<and> Output r = ''X'' \<and> Mode r = ModeInterpreted \<and>
     files w' ''f'' = None \<and> host_stdout w' = ''X'' \<and>
     calls w' = [SecurityCheck print_X_to_f]"
  by (simp add: print_X_to_f_def sample_defs interp_defs)

section \<open>The if statement\<close>

text \<open>
  C8. \<^verbatim>\<open>ExecuteIf\<close> runs the condition as a command; the condition holds when the
  result has \<open>Success\<close> and exit code 0. Then the then-body is executed; otherwise the
  else-body when there is one; otherwise the result is a success with exit code 0 and no
  command results. A condition that is not a command node is a fatal error.
\<close>

theorem ExecuteIf_branches:
  "(ExecuteCommand h c w = (Inr r, w') \<longrightarrow>
      ExecuteIf h (CommandN c) thn els w =
        (if Success r \<and> ExitCode r = 0 then Execute h thn w'
         else case els of
                Some e \<Rightarrow> Execute h e w'
              | None \<Rightarrow>
                  (Inr \<lparr>ESuccess = True, EExitCode = 0, EOutput = '''', EError = '''',
                        EDuration = 0, Commands = []\<rparr>, w'))) \<and>
   ((\<forall>c. condition \<noteq> CommandN c) \<longrightarrow>
      ExecuteIf h condition thn els w =
        (Inl (Err (''unsupported condition node type: '' @ type_name condition)), w))"
  by (cases condition) (auto simp: empty_result_def split: option.splits)

theorem ExecuteIf_branches_witness:
  "(\<exists>r w'. ExecuteCommand sample_host (command ''ReadFile'' []) sample_world = (Inr r, w') \<and>
      \<not> Success r \<and>
      ExecuteIf sample_host (CommandN (command ''ReadFile'' [])) three_commands None
        sample_world =
        (Inr \<lparr>ESuccess = True, EExitCode = 0, EOutput = '''', EError = '''',
              EDuration = 0, Commands = []\<rparr>, w')) \<and>
   (\<exists>r w'. ExecuteCommand sample_host (command ''Print'' [''x'']) sample_world = (Inr r, w') \<and>
      Success r \<and> ExitCode r = 0 \<and>
      ExecuteIf sample_host (CommandN (command ''Print'' [''x''])) three_commands None
        sample_world = Execute sample_host three_commands w') \<and>
   ExecuteIf sample_host (AssignmentNode ''a'' ''b'') three_commands None sample_world =
     (Inl (Err ''unsupported condition node type: *types.AssignmentNode''), sample_world)"
proof (intro conjI)
  let ?c = "command ''ReadFile'' []"
  have "\<exists>r w'. ExecuteCommand sample_host ?c sample_world = (Inr r, w') \<and> \<not> Success r"
    by (simp add: sample_defs interp_defs)
  then obtain r w' where
    e: "ExecuteCommand sample_host ?c sample_world = (Inr r, w')" and f: "\<not> Success r"
    by blast
  from e f ExecuteIf_branches
      [where h = sample_host and c = ?c and w = sample_world and r = r and w' = w'
         and thn = three_commands and els = None, THEN conjunct1]
  show "\<exists>r w'. ExecuteCommand sample_host ?c sample_world = (Inr r, w') \<and>
      \<not> Success r \<and>
      ExecuteIf sample_host (CommandN ?c) three_commands None sample_world =
        (Inr \<lparr>ESuccess = True, EExitCode = 0, EOutput = '''', EError = '''',
              EDuration = 0, Commands = []\<rparr>, w')"
    by simp
next
  let ?c = "command ''Print'' [''x'']"
  have "\<exists>r w'. ExecuteCommand sample_host ?c sample_world = (Inr r, w') \<and>
          Success r \<and> ExitCode r = 0"
    by (simp add: sample_defs interp_defs)
  then obtain r w' where
    e: "ExecuteCommand sample_host ?c sample_world = (Inr r, w')"
    and f: "Success r" "ExitCode r = 0"
    by blast
  from e f ExecuteIf_branches
      [where h = sample_host and c = ?c and w = sample_world and r = r and w' = w'
         and thn = three_commands and els = None, THEN conjunct1]
  show "\<exists>r w'. ExecuteCommand sample_host ?c sample_world = (Inr r, w') \<and>
      Success r \<and> ExitCode r = 0 \<and>
      ExecuteIf sample_host (CommandN ?c) three_commands None sample_world =
        Execute sample_host three_commands w'"
    by simp
next
  have "\<forall>c. AssignmentNode ''a'' ''b'' \<noteq> CommandN c" by simp
  with ExecuteIf_branches
      [where h = sample_host and condition = "AssignmentNode ''a'' ''b''"
         and w = sample_world and thn = three_commands and els = None, THEN conjunct2]
  show "ExecuteIf sample_host (AssignmentNode ''a'' ''b'') three_commands None sample_world =
     (Inl (Err ''unsupported condition node type: *types.AssignmentNode''), sample_world)"
    by simp
qed

section \<open>Later pipeline stages\<close>

lemma new_calls_append [simp]: "calls w' = calls w @ evs \<Longrightarrow> new_calls w w' = evs"
  by (simp add: new_calls_def)

lemma exec_Command_piped:
  "(exec_Command cmd w)\<lparr>pstdin := StdinText input, pstdout := Capture, pstderr := Capture\<rparr> =
     piped_request cmd input w"
  by (simp add: exec_Command_def piped_request_def)

lemma piped_request_log [simp]:
  "piped_request cmd input (log_call e w) = piped_request cmd input w"
  by (simp add: piped_request_def log_call_def)

lemma clock_log [simp]: "clock (log_call e w) = clock w"
  by (simp add: log_call_def)

lemma cache_log [simp]: "cache (log_call e w) = cache w"
  by (simp add: log_call_def)

lemma calls_log [simp]: "calls (log_call e w) = calls w @ [e]"
  by (simp add: log_call_def)

lemma child_effects_fields [simp]:
  "cache (child_effects out w) = cache w"
  "calls (child_effects out w) = calls w"
  "clock (child_effects out w) = clock w + elapsed out"
  by (simp_all add: child_effects_def)

text \<open>The five ways a stage with piped input can go.\<close>

lemma piped_stage_rejected:
  assumes "CheckCommand h cmd = Some e"
  shows "ExecuteCommandWithInput h cmd input w =
           (Inr (security_violation cmd e 0), log_call (SecurityCheck cmd) w)"
  using assms by (simp add: ExecuteCommandWithInput_def Let_def)

lemma piped_stage_no_pipe:
  assumes "CheckCommand h cmd = None" "pipe_error (host_answer h cmd input w) = Some e"
  shows "ExecuteCommandWithInput h cmd input w =
           (Inl (Err (''failed to create stdin pipe: '' @ e)), log_call (SecurityCheck cmd) w)"
  using assms
  by (simp add: ExecuteCommandWithInput_def executeProcessWithInput_def Let_def
        exec_Command_piped host_answer_def)

lemma piped_stage_not_started:
  assumes "CheckCommand h cmd = None" "pipe_error (host_answer h cmd input w) = None"
      and "start_error (host_answer h cmd input w) = Some e"
  shows "ExecuteCommandWithInput h cmd input w =
           (Inr ((zero_result cmd)\<lparr>Success := False, ExitCode := 1, Error := e,
                                   Mode := ModeProcess\<rparr>),
            after_start cmd input w)"
  using assms
  by (simp add: ExecuteCommandWithInput_def executeProcessWithInput_def Let_def
        exec_Command_piped host_answer_def after_start_def zero_result_def)

lemma piped_stage_write_failed:
  assumes "CheckCommand h cmd = None" "pipe_error (host_answer h cmd input w) = None"
      and "start_error (host_answer h cmd input w) = None"
      and "stdin_error (host_answer h cmd input w) = Some e"
  shows "ExecuteCommandWithInput h cmd input w =
           (Inl (Err (''failed to write to stdin: '' @ e)),
            after_run cmd input (host_answer h cmd input w) w)"
  using assms
  by (simp add: ExecuteCommandWithInput_def executeProcessWithInput_def Let_def
        exec_Command_piped host_answer_def after_start_def after_run_def)

lemma piped_stage_ran:
  assumes "CheckCommand h cmd = None" "pipe_error (host_answer h cmd input w) = None"
      and "start_error (host_answer h cmd input w) = None"
      and "stdin_error (host_answer h cmd input w) = None"
  shows "ExecuteCommandWithInput h cmd input w =
           (Inr (piped_result cmd (host_answer h cmd input w)),
            after_run cmd input (host_answer h cmd input w) w)"
  using assms
  by (simp add: ExecuteCommandWithInput_def executeProcessWithInput_def Let_def
        exec_Command_piped host_answer_def after_start_def after_run_def piped_result_def
        exit_code_of_def)

lemma executeProcessWithInput_calls:
  assumes "executeProcessWithInput h cmd input w = (res, w')"
  shows "cache w' = cache w \<and>
         (\<exists>evs. calls w' = calls w @ evs \<and> \<not> list_ex is_cache_call evs)"
  using assms
  by (auto simp: executeProcessWithInput_def Let_def split: option.splits)

lemma ExecuteCommandWithInput_calls:
  "cache (snd (ExecuteCommandWithInput h cmd input w)) = cache w \<and>
   \<not> list_ex is_cache_call (new_calls w (snd (ExecuteCommandWithInput h cmd input w)))"
proof -
  let ?w0 = "log_call (SecurityCheck cmd) w"
  obtain res1 w1 where p: "executeProcessWithInput h cmd input ?w0 = (res1, w1)"
    by (cases "executeProcessWithInput h cmd input ?w0")
  from executeProcessWithInput_calls [OF p] obtain evs where
    e: "cache w1 = cache w" "calls w1 = calls w @ SecurityCheck cmd # evs"
       "\<not> list_ex is_cache_call evs"
    by auto
  show ?thesis
  proof (cases "CheckCommand h cmd")
    case (Some msg)
    then show ?thesis by (simp add: piped_stage_rejected)
  next
    case None
    with p have "snd (ExecuteCommandWithInput h cmd input w) = w1"
      by (auto simp: ExecuteCommandWithInput_def Let_def split: sum.splits)
    with e show ?thesis by simp
  qed
qed

text \<open>
  C9. A stage after the first goes through \<^verbatim>\<open>ExecuteCommandWithInput\<close>, whatever its
  name. The security gate is asked first: a rejected stage is not started and its
  failing result keeps the zero mode. For an accepted stage the host is handed the
  request of an external process with the previous output as standard input and both
  output streams captured. If the stdin pipe cannot be made, the stage ends in a fatal
  error before any start. If the start fails, nothing is written and the result is a
  failure with exit code 1, stamped \<^verbatim>\<open>ModeProcess\<close>. If the process starts, the previous
  output is written to it; a failing write is a fatal error, and otherwise the result is
  read off the process (its exit status, its captured output and error text) and stamped
  \<^verbatim>\<open>ModeProcess\<close>. In no case is the command cache read or written.
\<close>

theorem later_stage_is_spawned:
  "(0 < i \<longrightarrow>
      pipeline_loop h (cmd # cmds) i previousOutput results w =
        (case ExecuteCommandWithInput h cmd previousOutput w of
           (Inl err, w') \<Rightarrow> (Inl err, w')
         | (Inr result, w') \<Rightarrow>
             (if \<not> Success result
              then (Inr \<lparr>PSuccess = False, PExitCode = ExitCode result,
                         POutput = Output result, PError = Error result,
                         Results = results @ [result]\<rparr>, w')
              else pipeline_loop h cmds (i + 1) (Output result) (results @ [result]) w'))) \<and>
   cache (snd (ExecuteCommandWithInput h cmd input w)) = cache w \<and>
   \<not> list_ex is_cache_call (new_calls w (snd (ExecuteCommandWithInput h cmd input w))) \<and>
   (CheckCommand h cmd = Some e \<longrightarrow>
      ExecuteCommandWithInput h cmd input w =
        (Inr (security_violation cmd e 0), log_call (SecurityCheck cmd) w) \<and>
      Mode (security_violation cmd e 0) = ModeInterpreted) \<and>
   (CheckCommand h cmd = None \<and> pipe_error (host_answer h cmd input w) = Some e \<longrightarrow>
      ExecuteCommandWithInput h cmd input w =
        (Inl (Err (''failed to create stdin pipe: '' @ e)), log_call (SecurityCheck cmd) w)) \<and>
   (CheckCommand h cmd = None \<and> pipe_error (host_answer h cmd input w) = None \<and>
    start_error (host_answer h cmd input w) = Some e \<longrightarrow>
      ExecuteCommandWithInput h cmd input w =
        (Inr ((zero_result cmd)\<lparr>Success := False, ExitCode := 1, Error := e,
                                Mode := ModeProcess\<rparr>),
         after_start cmd input w)) \<and>
   (CheckCommand h cmd = None \<and> pipe_error (host_answer h cmd input w) = None \<and>
    start_error (host_answer h cmd input w) = None \<and>
    stdin_error (host_answer h cmd input w) = Some e \<longrightarrow>
      ExecuteCommandWithInput h cmd input w =
        (Inl (Err (''failed to write to stdin: '' @ e)),
         after_run cmd input (host_answer h cmd input w) w)) \<and>
   (CheckCommand h cmd = None \<and> pipe_error (host_answer h cmd input w) = None \<and>
    start_error (host_answer h cmd input w) = None \<and>
    stdin_error (host_answer h cmd input w) = None \<longrightarrow>
      ExecuteCommandWithInput h cmd input w =
        (Inr (piped_result cmd (host_answer h cmd input w)),
         after_run cmd input (host_answer h cmd input w) w))"
proof (intro conjI impI)
  assume "0 < i"
  then show "pipeline_loop h (cmd # cmds) i previousOutput results w =
        (case ExecuteCommandWithInput h cmd previousOutput w of
           (Inl err, w') \<Rightarrow> (Inl err, w')
         | (Inr result, w') \<Rightarrow>
             (if \<not> Success result
              then (Inr \<lparr>PSuccess = False, PExitCode = ExitCode result,
                         POutput = Output result, PError = Error result,
                         Results = results @ [result]\<rparr>, w')
              else pipeline_loop h cmds (i + 1) (Output result) (results @ [result]) w'))"
    by simp
next
  show "cache (snd (ExecuteCommandWithInput h cmd input w)) = cache w"
    using ExecuteCommandWithInput_calls [of h cmd input w] by simp
  show "\<not> list_ex is_cache_call (new_calls w (snd (ExecuteCommandWithInput h cmd input w)))"
    using ExecuteCommandWithInput_calls [of h cmd input w] by simp
next
  assume a: "CheckCommand h cmd = Some e"
  then show "ExecuteCommandWithInput h cmd input w =
        (Inr (security_violation cmd e 0), log_call (SecurityCheck cmd) w)"
    by (rule piped_stage_rejected)
  show "Mode (security_violation cmd e 0) = ModeInterpreted"
    by (simp add: security_violation_def zero_result_def)
next
  assume "CheckCommand h cmd = None \<and> pipe_error (host_answer h cmd input w) = Some e"
  then show "ExecuteCommandWithInput h cmd input w =
        (Inl (Err (''failed to create stdin pipe: '' @ e)), log_call (SecurityCheck cmd) w)"
    by (simp add: piped_stage_no_pipe)
next
  assume "CheckCommand h cmd = None \<and> pipe_error (host_answer h cmd input w) = None \<and>
    start_error (host_answer h cmd input w) = Some e"
  then show "ExecuteCommandWithInput h cmd input w =
        (Inr ((zero_result cmd)\<lparr>Success := False, ExitCode := 1, Error := e,
                                Mode := ModeProcess\<rparr>),
         after_start cmd input w)"
    by (simp add: piped_stage_not_started)
next
  assume "CheckCommand h cmd = None \<and> pipe_error (host_answer h cmd input w) = None \<and>
    start_error (host_answer h cmd input w) = None \<and>
    stdin_error (host_answer h cmd input w) = Some e"
  then show "ExecuteCommandWithInput h cmd input w =
        (Inl (Err (''failed to write to stdin: '' @ e)),
         after_run cmd input (host_answer h cmd input w) w)"
    by (simp add: piped_stage_write_failed)
next
  assume "CheckCommand h cmd = None \<and> pipe_error (host_answer h cmd input w) = None \<and>
    start_error (host_answer h cmd input w) = None \<and>
    stdin_error (host_answer h cmd input w) = None"
  then show "ExecuteCommandWithInput h cmd input w =
        (Inr (piped_result cmd (host_answer h cmd input w)),
         after_run cmd input (host_answer h cmd input w) w)"
    by (simp add: piped_stage_ran)
qed

text \<open>
  A stage the security gate rejects: it is not spawned, and its result carries the zero
  mode, \<^verbatim>\<open>ModeInterpreted\<close>.
\<close>

theorem rejected_stage_not_spawned:
  "\<exists>p w'. ExecutePipeline sample_host echo_rm_pipeline sample_world = (Inr p, w') \<and>
     map (\<lambda>r. (Name (Command r), Success r, Mode r)) (Results p) =
       [(''echo'', True, ModeProcess), (''rm'', False, ModeInterpreted)] \<and>
     filter is_proc_start (calls w') =
       [ProcStart \<lparr>pname = ''echo'', pargs = [''hi''], penv = Map.empty, pdir = ''/'',
                   pstdin = NoStdin, pstdout = Capture, pstderr = Capture\<rparr>] \<and>
     filter is_stdin_write (calls w') = []"
  by (simp add: echo_rm_pipeline_def sample_defs interp_defs process_defs pipe_defs Let_def)

theorem later_stage_is_spawned_witness:
  "ExecuteCommandWithInput sample_host (command ''rm'' [''x'']) ''hi'' sample_world =
     (Inr rm_result, log_call (SecurityCheck (command ''rm'' [''x''])) sample_world) \<and>
   ExecuteCommandWithInput sample_host (command ''cat'' []) ''hi'' crowded_world =
     (Inl (Err ''failed to create stdin pipe: pipe: too many open files''),
      log_call (SecurityCheck (command ''cat'' [])) crowded_world) \<and>
   ExecuteCommandWithInput sample_host (command ''Print'' [''zz'']) ''hi'' sample_world =
     (Inr \<lparr>Command = command ''Print'' [''zz''], Success = False, ExitCode = 1, Output = '''',
           Error = ''exec: Print: executable file not found in $PATH'', Duration = 0,
           Mode = ModeProcess\<rparr>,
      after_start (command ''Print'' [''zz'']) ''hi'' sample_world) \<and>
   ExecuteCommandWithInput sample_host (command ''true'' []) ''hi'' sample_world =
     (Inl (Err ''failed to write to stdin: write |1: broken pipe''),
      after_run (command ''true'' []) ''hi''
        (host_answer sample_host (command ''true'' []) ''hi'' sample_world) sample_world) \<and>
   (\<exists>w'. ExecuteCommandWithInput sample_host (command ''cat'' []) ''hi'' sample_world =
      (Inr \<lparr>Command = command ''cat'' [], Success = True, ExitCode = 0, Output = ''hi'',
            Error = '''', Duration = 1, Mode = ModeProcess\<rparr>, w') \<and>
      calls w' =
        [SecurityCheck (command ''cat'' []),
         ProcStart \<lparr>pname = ''cat'', pargs = [], penv = Map.empty, pdir = ''/'',
                     pstdin = StdinText ''hi'', pstdout = Capture, pstderr = Capture\<rparr>,
         StdinWrite ''hi'']) \<and>
   pipeline_loop sample_host [command ''cat'' []] 1 ''hi'' [] sample_world =
     (case ExecuteCommandWithInput sample_host (command ''cat'' []) ''hi'' sample_world of
        (Inl err, w') \<Rightarrow> (Inl err, w')
      | (Inr result, w') \<Rightarrow>
          (if \<not> Success result
           then (Inr \<lparr>PSuccess = False, PExitCode = ExitCode result,
                      POutput = Output result, PError = Error result,
                      Results = [] @ [result]\<rparr>, w')
           else pipeline_loop sample_host [] (1 + 1) (Output result) ([] @ [result]) w'))"
proof (intro conjI)
  let ?c = "command ''rm'' [''x'']"
  have "CheckCommand sample_host ?c = Some ''dangerous command: rm''"
    by (simp add: sample_host_def command_def)
  with later_stage_is_spawned
      [where h = sample_host and cmd = ?c and input = "''hi''" and w = sample_world
         and e = "''dangerous command: rm''",
       THEN conjunct2, THEN conjunct2, THEN conjunct2, THEN conjunct1]
  show "ExecuteCommandWithInput sample_host ?c ''hi'' sample_world =
     (Inr rm_result, log_call (SecurityCheck ?c) sample_world)"
    by (simp add: rm_result_def)
next
  let ?c = "command ''cat'' []"
  have "CheckCommand sample_host ?c = None \<and>
        pipe_error (host_answer sample_host ?c ''hi'' crowded_world) =
          Some ''pipe: too many open files''"
    by (simp add: host_answer_def piped_request_def crowded_world_def sample_defs log_call_def)
  with later_stage_is_spawned
      [where h = sample_host and cmd = ?c and input = "''hi''" and w = crowded_world
         and e = "''pipe: too many open files''",
       THEN conjunct2, THEN conjunct2, THEN conjunct2, THEN conjunct2, THEN conjunct1]
  show "ExecuteCommandWithInput sample_host ?c ''hi'' crowded_world =
     (Inl (Err ''failed to create stdin pipe: pipe: too many open files''),
      log_call (SecurityCheck ?c) crowded_world)"
    by simp
next
  let ?c = "command ''Print'' [''zz'']"
  have "CheckCommand sample_host ?c = None \<and>
        pipe_error (host_answer sample_host ?c ''hi'' sample_world) = None \<and>
        start_error (host_answer sample_host ?c ''hi'' sample_world) =
          Some ''exec: Print: executable file not found in $PATH''"
    by (simp add: host_answer_def piped_request_def sample_defs log_call_def)
  with later_stage_is_spawned
      [where h = sample_host and cmd = ?c and input = "''hi''" and w = sample_world
         and e = "''exec: Print: executable file not found in $PATH''",
       THEN conjunct2, THEN conjunct2, THEN conjunct2, THEN conjunct2, THEN conjunct2,
       THEN conjunct1]
  show "ExecuteCommandWithInput sample_host ?c ''hi'' sample_world =
     (Inr \<lparr>Command = ?c, Success = False, ExitCode = 1, Output = '''',
           Error = ''exec: Print: executable file not found in $PATH'', Duration = 0,
           Mode = ModeProcess\<rparr>,
      after_start ?c ''hi'' sample_world)"
    by (simp add: zero_result_def)
next
  let ?c = "command ''true'' []"
  have "CheckCommand sample_host ?c = None \<and>
        pipe_error (host_answer sample_host ?c ''hi'' sample_world) = None \<and>
        start_error (host_answer sample_host ?c ''hi'' sample_world) = None \<and>
        stdin_error (host_answer sample_host ?c ''hi'' sample_world) =
          Some ''write |1: broken pipe''"
    by (simp add: host_answer_def piped_request_def sample_defs log_call_def)
  with later_stage_is_spawned
      [where h = sample_host and cmd = ?c and input = "''hi''" and w = sample_world
         and e = "''write |1: broken pipe''",
       THEN conjunct2, THEN conjunct2, THEN conjunct2, THEN conjunct2, THEN conjunct2,
       THEN conjunct2, THEN conjunct1]
  show "ExecuteCommandWithInput sample_host ?c ''hi'' sample_world =
     (Inl (Err ''failed to write to stdin: write |1: broken pipe''),
      after_run ?c ''hi'' (host_answer sample_host ?c ''hi'' sample_world) sample_world)"
    by simp
next
  let ?c = "command ''cat'' []"
  have "CheckCommand sample_host ?c = None \<and>
        pipe_error (host_answer sample_host ?c ''hi'' sample_world) = None \<and>
        start_error (host_answer sample_host ?c ''hi'' sample_world) = None \<and>
        stdin_error (host_answer sample_host ?c ''hi'' sample_world) = None"
    by (simp add: host_answer_def piped_request_def sample_defs log_call_def)
  with later_stage_is_spawned
      [where h = sample_host and cmd = ?c and input = "''hi''" and w = sample_world,
       THEN conjunct2, THEN conjunct2, THEN conjunct2, THEN conjunct2, THEN conjunct2,
       THEN conjunct2, THEN conjunct2]
  have "ExecuteCommandWithInput sample_host ?c ''hi'' sample_world =
        (Inr (piped_result ?c (host_answer sample_host ?c ''hi'' sample_world)),
         after_run ?c ''hi'' (host_answer sample_host ?c ''hi'' sample_world) sample_world)"
    by simp
  then show "\<exists>w'. ExecuteCommandWithInput sample_host ?c ''hi'' sample_world =
      (Inr \<lparr>Command = ?c, Success = True, ExitCode = 0, Output = ''hi'',
            Error = '''', Duration = 1, Mode = ModeProcess\<rparr>, w') \<and>
      calls w' =
        [SecurityCheck ?c,
         ProcStart \<lparr>pname = ''cat'', pargs = [], penv = Map.empty, pdir = ''/'',
                     pstdin = StdinText ''hi'', pstdout = Capture, pstderr = Capture\<rparr>,
         StdinWrite ''hi'']"
    by (simp add: piped_result_def host_answer_def after_run_def after_start_def
          piped_request_def sample_defs)
next
  have "(0::nat) < 1" by simp
  with later_stage_is_spawned
      [where h = sample_host and cmd = "command ''cat'' []" and cmds = "[]" and i = 1
         and previousOutput = "''hi''" and results = "[]" and w = sample_world,
       THEN conjunct1]
  show "pipeline_loop sample_host [command ''cat'' []] 1 ''hi'' [] sample_world =
     (case ExecuteCommandWithInput sample_host (command ''cat'' []) ''hi'' sample_world of
        (Inl err, w') \<Rightarrow> (Inl err, w')
      | (Inr result, w') \<Rightarrow>
          (if \<not> Success result
           then (Inr \<lparr>PSuccess = False, PExitCode = ExitCode result,
                      POutput = Output result, PError = Error result,
                      Results = [] @ [result]\<rparr>, w')
           else pipeline_loop sample_host [] (1 + 1) (Output result) ([] @ [result]) w'))"
    by blast
qed

section \<open>The command cache\<close>

lemma cache_Get_ok:
  assumes "cache_ok c" "cache_Get c now n a = (x, c')"
  shows "cache_ok c' \<and> (\<forall>r. x = Some r \<longrightarrow> eligible r)"
proof (cases "find (key_matches n a) (entries c)")
  case None
  with assms show ?thesis by (simp add: cache_Get_def)
next
  case (Some e)
  then have "e \<in> set (entries c)"
    by (auto simp: find_Some_iff)
  with assms(1) have "eligible (ce_result e)"
    by (simp add: cache_ok_def list_all_iff)
  moreover from assms(1)
  have "cache_ok (c\<lparr>entries := filter (\<lambda>x. \<not> key_matches n a x) (entries c)\<rparr>)"
    by (simp add: cache_ok_def list_all_iff)
  ultimately show ?thesis
    using assms Some by (auto simp: cache_Get_def split: if_splits)
qed

lemma cache_Put_ok:
  assumes "cache_ok c" "eligible r"
  shows "cache_ok (cache_Put c now n a r)"
proof -
  let ?kept = "filter (\<lambda>x. \<not> key_matches n a x) (entries c)"
  have k: "list_all (\<lambda>e. eligible (ce_result e)) ?kept"
    using assms(1) by (simp add: cache_ok_def list_all_iff)
  then have "list_all (\<lambda>e. eligible (ce_result e)) (tl ?kept)"
    by (cases ?kept) simp_all
  with k assms(2) show ?thesis
    by (simp add: cache_ok_def cache_Put_def Let_def)
qed

lemma setupRedirect_trace:
  assumes "setupRedirect h req rd w = (e, req', w')"
  shows "cache w' = cache w \<and> (\<exists>evs. calls w' = calls w @ evs \<and> \<not> list_ex is_cache_call evs)"
  using assms
  by (auto simp: setupRedirect_def os_Create_def os_OpenAppend_def os_Open_def
        open_handle_def file_Close_def log_call_def
      split: if_splits option.splits)

lemma run_and_collect_trace:
  assumes "run_and_collect h cmd req w = (res, w')"
  shows "(calls w' = calls w @ [ProcStart req] \<and>
          cache w' = cache w) \<or>
         (\<exists>r. calls w' = calls w @ [ProcStart req,
                                     CachePut (Name cmd) (Args cmd) r] \<and>
              cache w' = cache_Put (cache w) (clock w') (Name cmd) (Args cmd) r \<and>
              res = Inr r \<and> Redirect cmd = None \<and> Command r = cmd \<and>
              Success r \<and> ExitCode r = 0 \<and> run_error (RunProcess h w req) = WaitOK)"
  using assms
  by (auto simp: run_and_collect_def command_Run_def Let_def log_call_def child_effects_def
        exit_code_of_def
      split: if_splits)

lemma executeProcess_trace:
  assumes "executeProcess h cmd w = (res, w')"
  shows "\<exists>evs. calls w' = calls w @ evs \<and>
     (\<forall>k a r. CachePut k a r \<in> set evs \<longrightarrow>
        Redirect cmd = None \<and> k = Name cmd \<and> a = Args cmd \<and> res = Inr r \<and>
        Command r = cmd \<and> Success r \<and> ExitCode r = 0 \<and>
        (\<exists>w1 req. pname req = Name cmd \<and> pargs req = Args cmd \<and>
           run_error (RunProcess h w1 req) = WaitOK)) \<and>
     (Redirect cmd \<noteq> None \<longrightarrow> cache w' = cache w \<and> \<not> list_ex is_cache_call evs) \<and>
     (cache_ok (cache w) \<longrightarrow> cache_ok (cache w'))"
proof (cases "Redirect cmd")
  case None
  obtain x c' where g: "cache_Get (cache w) (clock w) (Name cmd) (Args cmd) = (x, c')"
    by (cases "cache_Get (cache w) (clock w) (Name cmd) (Args cmd)")
  let ?w2 = "(log_call (CacheGet (Name cmd) (Args cmd)) w)\<lparr>cache := c'\<rparr>"
  let ?req = "(exec_Command cmd ?w2)\<lparr>pstdout := Capture, pstderr := Capture\<rparr>"
  show ?thesis
  proof (cases x)
    case (Some cached)
    with assms None g have "w' = ?w2" by (simp add: executeProcess_def)
    then have "calls w' = calls w @ [CacheGet (Name cmd) (Args cmd)]" "cache w' = c'"
      by (simp_all add: log_call_def)
    with None cache_Get_ok [OF _ g] show ?thesis by auto
  next
    case n: None
    with assms None g have r: "run_and_collect h cmd ?req ?w2 = (res, w')"
      by (simp add: executeProcess_def spawn_process_def)
    have c2: "calls ?w2 = calls w @ [CacheGet (Name cmd) (Args cmd)]" "cache ?w2 = c'"
      by (simp_all add: log_call_def)
    have pn: "pname ?req = Name cmd" "pargs ?req = Args cmd"
      by (simp_all add: exec_Command_def)
    from run_and_collect_trace [OF r] show ?thesis
    proof
      assume "calls w' = calls ?w2 @ [ProcStart ?req] \<and>
              cache w' = cache ?w2"
      with c2 None cache_Get_ok [OF _ g] show ?thesis by auto
    next
      assume "\<exists>r. calls w' = calls ?w2 @ [ProcStart ?req,
                                     CachePut (Name cmd) (Args cmd) r] \<and>
              cache w' = cache_Put (cache ?w2) (clock w') (Name cmd) (Args cmd) r \<and>
              res = Inr r \<and> Redirect cmd = None \<and> Command r = cmd \<and>
              Success r \<and> ExitCode r = 0 \<and> run_error (RunProcess h ?w2 ?req) = WaitOK"
      then obtain r where
        t: "calls w' = calls ?w2 @ [ProcStart ?req,
                                     CachePut (Name cmd) (Args cmd) r]"
        and c: "cache w' = cache_Put (cache ?w2) (clock w') (Name cmd) (Args cmd) r"
        and p: "res = Inr r" "Command r = cmd" "Success r" "ExitCode r = 0"
               "run_error (RunProcess h ?w2 ?req) = WaitOK"
        by blast
      from p None have e: "eligible r" by (simp add: eligible_def)
      have ok: "cache_ok (cache w) \<longrightarrow> cache_ok (cache w')"
        using c c2 e cache_Get_ok [OF _ g] cache_Put_ok by auto
      have "calls w' = calls w @ [CacheGet (Name cmd) (Args cmd),
              ProcStart ?req, CachePut (Name cmd) (Args cmd) r]"
        using t c2 by simp
      moreover have "\<exists>w1 req. pname req = Name cmd \<and> pargs req = Args cmd \<and>
           run_error (RunProcess h w1 req) = WaitOK"
        using p(5) pn by blast
      ultimately show ?thesis using None p ok by auto
    qed
  qed
next
  case (Some rd)
  obtain e req' w1 where s: "setupRedirect h (exec_Command cmd w) rd w = (e, req', w1)"
    by (cases "setupRedirect h (exec_Command cmd w) rd w")
  from setupRedirect_trace [OF s] obtain evs where
    t1: "cache w1 = cache w" "calls w1 = calls w @ evs" "\<not> list_ex is_cache_call evs"
    by blast
  show ?thesis
  proof (cases e)
    case (Some msg)
    with assms \<open>Redirect cmd = Some rd\<close> s have "w' = w1"
      by (simp add: executeProcess_def spawn_process_def)
    with t1 \<open>Redirect cmd = Some rd\<close> show ?thesis by (auto simp: list_ex_iff)
  next
    case None
    with assms \<open>Redirect cmd = Some rd\<close> s have r: "run_and_collect h cmd req' w1 = (res, w')"
      by (simp add: executeProcess_def spawn_process_def)
    from run_and_collect_trace [OF r] \<open>Redirect cmd = Some rd\<close>
    have "calls w' = calls w1 @ [ProcStart req']"
         "cache w' = cache w1"
      by auto
    with t1 \<open>Redirect cmd = Some rd\<close> show ?thesis by (auto simp: list_ex_iff)
  qed
qed

lemma stdlib_cache [simp]:
  "cache (Print t w) = cache w"
  "cache (Println t w) = cache w"
  "cache (Error' t w) = cache w"
  "cache (Errorln t w) = cache w"
  "cache (snd (ReadFile h f w)) = cache w"
  "cache (snd (WriteFile h f c w)) = cache w"
  "cache (snd (ListFiles h d w)) = cache w"
  "cache (snd (SetEnv k v w)) = cache w"
  "cache (snd (WorkingDir h w)) = cache w"
  "cache (snd (ChangeDir h d w)) = cache w"
  by (simp_all add: Print_def Println_def Error'_def Errorln_def ReadFile_def WriteFile_def
        ListFiles_def SetEnv_def WorkingDir_def ChangeDir_def
      split: option.splits sum.splits)

lemma executeStdLibFunction_cache:
  "cache (snd (executeStdLibFunction h f args w)) = cache w"
  by (simp add: executeStdLibFunction_def split_beta option.case_distrib [of snd]
        option.case_distrib [of cache] cong: option.case_cong)
     (simp split: option.split)

lemma executeInterpreted_cache:
  "cache (snd (executeInterpreted h cmd w)) = cache w"
  using executeStdLibFunction_cache [of h "Name cmd" "Args cmd" w]
  by (auto simp: executeInterpreted_def split: prod.splits option.splits)

lemma executeProcess_cache_ok:
  "cache_ok (cache w) \<Longrightarrow> cache_ok (cache (snd (executeProcess h cmd w)))"
  using executeProcess_trace [of h cmd w "fst (executeProcess h cmd w)" "snd (executeProcess h cmd w)"]
  by auto

lemma ExecuteCommand_cache_ok:
  assumes "cache_ok (cache w)"
  shows "cache_ok (cache (snd (ExecuteCommand h cmd w)))"
proof -
  let ?w0 = "log_call (SecurityCheck cmd) w"
  have ok0: "cache_ok (cache ?w0)" using assms by (simp add: log_call_def)
  have i: "cache_ok (cache (snd (executeInterpreted h cmd ?w0)))"
    using ok0 by (simp add: executeInterpreted_cache)
  have p: "cache_ok (cache (snd (executeProcess h cmd ?w0)))"
    using ok0 by (rule executeProcess_cache_ok)
  show ?thesis
    using ok0 i p
    by (auto simp: ExecuteCommand_def Let_def executeHybrid_def
          split: option.splits ExecutionMode.splits prod.splits sum.splits)
qed

lemma ExecuteCommandWithInput_cache:
  "cache (snd (ExecuteCommandWithInput h cmd input w)) = cache w"
proof -
  let ?w0 = "log_call (SecurityCheck cmd) w"
  obtain res1 w1 where p: "executeProcessWithInput h cmd input ?w0 = (res1, w1)"
    by (cases "executeProcessWithInput h cmd input ?w0")
  from executeProcessWithInput_calls [OF p] have "cache w1 = cache w"
    by (simp add: log_call_def)
  with p show ?thesis
    by (auto simp: ExecuteCommandWithInput_def Let_def log_call_def
          split: option.splits sum.splits)
qed

lemma pipeline_loop_cache_ok:
  "cache_ok (cache w) \<Longrightarrow> cache_ok (cache (snd (pipeline_loop h cmds i prev results w)))"
proof (induction cmds arbitrary: i prev results w)
  case Nil
  then show ?case by simp
next
  case (Cons cmd cmds)
  have a: "cache_ok (cache (snd (ExecuteCommand h cmd w)))"
    using Cons.prems by (rule ExecuteCommand_cache_ok)
  have b: "cache_ok (cache (snd (ExecuteCommandWithInput h cmd prev w)))"
    using Cons.prems by (simp add: ExecuteCommandWithInput_cache)
  show ?case
  proof (cases "i = 0")
    case True
    with a Cons.IH show ?thesis
      by (auto split: prod.splits sum.splits)
  next
    case False
    with b Cons.IH show ?thesis
      by (auto split: prod.splits sum.splits)
  qed
qed

lemma ExecutePipeline_cache_ok:
  "cache_ok (cache w) \<Longrightarrow> cache_ok (cache (snd (ExecutePipeline h p w)))"
  by (simp add: ExecutePipeline_def pipeline_loop_cache_ok)

lemma evaluateCondition_cache_ok:
  "cache_ok (cache w) \<Longrightarrow> cache_ok (cache (snd (evaluateCondition h c w)))"
proof (cases c)
  case (CommandN n)
  assume "cache_ok (cache w)"
  then have "cache_ok (cache (snd (ExecuteCommand h n w)))"
    by (rule ExecuteCommand_cache_ok)
  with CommandN show ?thesis
    by (auto split: prod.splits sum.splits)
qed simp_all

lemma engine_cache_ok:
  "cache_ok (cache w) \<Longrightarrow> cache_ok (cache (snd (Execute h script w)))"
  "cache_ok (cache w) \<Longrightarrow> cache_ok (cache (snd (Execute_loop h nodes result w)))"
  "cache_ok (cache w) \<Longrightarrow> cache_ok (cache (snd (ExecuteIf h c t e w)))"
  "cache_ok (cache w) \<Longrightarrow> cache_ok (cache (snd (ExecuteFor h v xs b w)))"
  "cache_ok (cache w) \<Longrightarrow> cache_ok (cache (snd (ExecuteFor_loop h v xs b result w)))"
  "cache_ok (cache w) \<Longrightarrow> cache_ok (cache (snd (ExecuteWhile h c b w)))"
  "cache_ok (cache w) \<Longrightarrow> cache_ok (cache (snd (ExecuteWhile_loop h c b i result w)))"
proof (induction h script w and h nodes result w and h c t e w and h v xs b w
         and h v xs b result w and h c b w and h c b i result w
       rule: Execute_Execute_loop_ExecuteIf_ExecuteFor_ExecuteFor_loop_ExecuteWhile_ExecuteWhile_loop.induct)
  case (1 h script w)
  then show ?case
    by (auto simp: Let_def split: prod.splits sum.splits)
next
  case (3 h n nodes result w)
  obtain x y where e: "ExecuteCommand h n w = (x, y)" by (cases "ExecuteCommand h n w")
  with ExecuteCommand_cache_ok [OF "3.prems", of h n] have ok: "cache_ok (cache y)" by simp
  show ?case
  proof (cases x)
    case (Inl err)
    with e ok show ?thesis by simp
  next
    case (Inr r)
    with "3.IH" [OF e [symmetric] Inr ok] e show ?thesis by simp
  qed
next
  case (4 h l r nodes result w)
  obtain x y where e: "ExecutePipeline h (PipeNode l r) w = (x, y)"
    by (cases "ExecutePipeline h (PipeNode l r) w")
  with ExecutePipeline_cache_ok [OF "4.prems", of h "PipeNode l r"]
  have ok: "cache_ok (cache y)" by simp
  show ?case
  proof (cases x)
    case (Inl err)
    with e ok show ?thesis by simp
  next
    case (Inr r)
    with "4.IH" [OF e [symmetric] Inr ok] e show ?thesis by simp
  qed
next
  case (5 h c t e nodes result w)
  obtain x y where e: "ExecuteIf h c t e w = (x, y)" by (cases "ExecuteIf h c t e w")
  with "5.IH"(1) [OF "5.prems"] have ok: "cache_ok (cache y)" by simp
  show ?case
  proof (cases x)
    case (Inl err)
    with e ok show ?thesis by simp
  next
    case (Inr r)
    with "5.IH"(2) [OF e [symmetric] Inr ok] e show ?thesis by simp
  qed
next
  case (6 h v xs b nodes result w)
  obtain x y where e: "ExecuteFor h v xs b w = (x, y)" by (cases "ExecuteFor h v xs b w")
  with "6.IH"(1) [OF "6.prems"] have ok: "cache_ok (cache y)" by simp
  show ?case
  proof (cases x)
    case (Inl err)
    with e ok show ?thesis by simp
  next
    case (Inr r)
    with "6.IH"(2) [OF e [symmetric] Inr ok] e show ?thesis by simp
  qed
next
  case (7 h c b nodes result w)
  obtain x y where e: "ExecuteWhile h c b w = (x, y)" by (cases "ExecuteWhile h c b w")
  with "7.IH"(1) [OF "7.prems"] have ok: "cache_ok (cache y)" by simp
  show ?case
  proof (cases x)
    case (Inl err)
    with e ok show ?thesis by simp
  next
    case (Inr r)
    with "7.IH"(2) [OF e [symmetric] Inr ok] e show ?thesis by simp
  qed
next
  case (11 h condition thn els w)
  obtain x y where e: "evaluateCondition h condition w = (x, y)"
    by (cases "evaluateCondition h condition w")
  with evaluateCondition_cache_ok [OF "11.prems", of h condition]
  have ok: "cache_ok (cache y)" by simp
  show ?case
  proof (cases x)
    case (Inl err)
    with e ok show ?thesis by simp
  next
    case (Inr cr)
    show ?thesis
    proof (cases cr)
      case True
      with "11.IH"(1) [OF e [symmetric] Inr _ ok] e Inr show ?thesis by simp
    next
      case False
      show ?thesis
      proof (cases els)
        case None
        with e Inr False ok show ?thesis by simp
      next
        case (Some els')
        with "11.IH"(2) [OF e [symmetric] Inr _ Some ok] e Inr False show ?thesis by simp
      qed
    qed
  qed
next
  case (14 h v item items body result w)
  let ?w1 = "w\<lparr>environment := (environment w)(v \<mapsto> item)\<rparr>"
  have ok1: "cache_ok (cache ?w1)" using "14.prems" by simp
  obtain x y where e: "Execute h body ?w1 = (x, y)" by (cases "Execute h body ?w1")
  with "14.IH"(1) [OF ok1] have ok: "cache_ok (cache y)" by simp
  show ?case
  proof (cases x)
    case (Inl err)
    with e ok show ?thesis by simp
  next
    case (Inr r)
    show ?thesis
    proof (cases "ESuccess r")
      case True
      with "14.IH"(2) [OF e [symmetric] Inr _ ok] e Inr show ?thesis by simp
    next
      case False
      with e Inr ok show ?thesis by simp
    qed
  qed
next
  case (16 h condition body iterations result w)
  show ?case
  proof (cases "iterations \<ge> maxIterations")
    case True
    with "16.prems" show ?thesis by (simp add: ExecuteWhile_loop.simps)
  next
    case lim: False
    obtain x y where e: "evaluateCondition h condition w = (x, y)"
      by (cases "evaluateCondition h condition w")
    with evaluateCondition_cache_ok [OF "16.prems", of h condition]
    have ok: "cache_ok (cache y)" by simp
    show ?thesis
    proof (cases x)
      case (Inl err)
      with e ok lim show ?thesis by (simp add: ExecuteWhile_loop.simps)
    next
      case (Inr cr)
      show ?thesis
      proof (cases cr)
        case False
        with e Inr ok lim show ?thesis by (simp add: ExecuteWhile_loop.simps)
      next
        case True
        obtain x2 y2 where e2: "Execute h body y = (x2, y2)" by (cases "Execute h body y")
        with "16.IH"(1) [OF lim e [symmetric] Inr _ ok] True
        have ok2: "cache_ok (cache y2)" by simp
        show ?thesis
        proof (cases x2)
          case (Inl err)
          with e Inr True e2 ok2 lim show ?thesis by (simp add: ExecuteWhile_loop.simps)
        next
          case r: (Inr lr)
          show ?thesis
          proof (cases "ESuccess lr")
            case False
            with e Inr True e2 r ok2 lim show ?thesis by (simp add: ExecuteWhile_loop.simps)
          next
            case s: True
            with "16.IH"(2) [OF lim e [symmetric] Inr _ e2 [symmetric] r _ ok2] True
              e Inr e2 r lim
            show ?thesis by (simp add: ExecuteWhile_loop.simps)
          qed
        qed
      qed
    qed
  qed
qed simp_all

text \<open>
  C6. A process-mode execution writes to the command cache only the result of a command
  without redirect whose process exited successfully, and neither reads nor writes the
  cache for a command with a redirect. Hence the invariant of the cache (every entry is
  the successful, exit code 0 result of a command without redirect) is kept by
  \<^verbatim>\<open>executeProcess\<close> and by every \<^verbatim>\<open>Execute\<close> call; the empty cache of a new engine has
  it.
\<close>

theorem cache_eligibility:
  "(executeProcess h cmd w = (res, w') \<longrightarrow>
      (\<forall>k a r. CachePut k a r \<in> set (new_calls w w') \<longrightarrow>
         Redirect cmd = None \<and> k = Name cmd \<and> a = Args cmd \<and> res = Inr r \<and>
         Command r = cmd \<and> Success r \<and> ExitCode r = 0 \<and>
         (\<exists>w1 req. pname req = Name cmd \<and> pargs req = Args cmd \<and>
            run_error (RunProcess h w1 req) = WaitOK)) \<and>
      (Redirect cmd \<noteq> None \<longrightarrow>
         cache w' = cache w \<and> \<not> list_ex is_cache_call (new_calls w w')) \<and>
      (cache_ok (cache w) \<longrightarrow> cache_ok (cache w'))) \<and>
   (cache_ok (cache w) \<longrightarrow> cache_ok (cache (snd (Execute h script w)))) \<and>
   cache_ok empty_cache"
proof (intro conjI impI)
  assume a: "executeProcess h cmd w = (res, w')"
  from executeProcess_trace [OF a] obtain evs where
    t: "calls w' = calls w @ evs"
    and p: "\<forall>k a r. CachePut k a r \<in> set evs \<longrightarrow>
        Redirect cmd = None \<and> k = Name cmd \<and> a = Args cmd \<and> res = Inr r \<and>
        Command r = cmd \<and> Success r \<and> ExitCode r = 0 \<and>
        (\<exists>w1 req. pname req = Name cmd \<and> pargs req = Args cmd \<and>
           run_error (RunProcess h w1 req) = WaitOK)"
    and r: "Redirect cmd \<noteq> None \<longrightarrow> cache w' = cache w \<and> \<not> list_ex is_cache_call evs"
    and k: "cache_ok (cache w) \<longrightarrow> cache_ok (cache w')"
    by blast
  from t have n: "new_calls w w' = evs" by simp
  from p n show "\<forall>k a r. CachePut k a r \<in> set (new_calls w w') \<longrightarrow>
         Redirect cmd = None \<and> k = Name cmd \<and> a = Args cmd \<and> res = Inr r \<and>
         Command r = cmd \<and> Success r \<and> ExitCode r = 0 \<and>
         (\<exists>w1 req. pname req = Name cmd \<and> pargs req = Args cmd \<and>
            run_error (RunProcess h w1 req) = WaitOK)"
    by blast
  from r n show "cache w' = cache w" if "Redirect cmd \<noteq> None" using that by simp
  from r n show "\<not> list_ex is_cache_call (new_calls w w')" if "Redirect cmd \<noteq> None"
    using that by simp
  from k show "cache_ok (cache w')" if "cache_ok (cache w)" using that by simp
next
  assume "cache_ok (cache w)"
  then show "cache_ok (cache (snd (Execute h script w)))"
    by (rule engine_cache_ok(1))
next
  show "cache_ok empty_cache"
    by (simp add: cache_ok_def empty_cache_def)
qed

theorem cache_eligibility_witness:
  "(\<exists>r w'. executeProcess sample_host (command ''echo'' [''hi'']) sample_world = (Inr r, w') \<and>
      CachePut ''echo'' [''hi''] r \<in> set (new_calls sample_world w') \<and>
      Redirect (command ''echo'' [''hi'']) = None \<and> Success r \<and> ExitCode r = 0 \<and>
      cache_ok (cache w')) \<and>
   (\<exists>res w'. executeProcess sample_host (redirected (command ''echo'' [''hi'']) ''>'' ''f'' 1)
        sample_world = (res, w') \<and>
      cache w' = cache sample_world \<and> \<not> list_ex is_cache_call (new_calls sample_world w')) \<and>
   cache_ok (cache (snd (Execute sample_host three_commands sample_world)))"
proof (intro conjI)
  let ?c = "command ''echo'' [''hi'']"
  have ok: "cache_ok (cache sample_world)"
    by (simp add: sample_world_def empty_cache_def cache_ok_def)
  obtain res w' where a: "executeProcess sample_host ?c sample_world = (res, w')"
    by (cases "executeProcess sample_host ?c sample_world")
  have "\<exists>r. CachePut ''echo'' [''hi''] r \<in>
          set (new_calls sample_world (snd (executeProcess sample_host ?c sample_world)))"
    by (simp add: new_calls_def sample_defs process_defs log_call_def Let_def)
  with a obtain r where put: "CachePut ''echo'' [''hi''] r \<in> set (new_calls sample_world w')"
    by auto
  from a put ok cache_eligibility
      [where h = sample_host and cmd = ?c and w = sample_world and res = res and w' = w',
       THEN conjunct1]
  have "Redirect ?c = None \<and> res = Inr r \<and> Success r \<and> ExitCode r = 0 \<and> cache_ok (cache w')"
    by blast
  with a put show "\<exists>r w'. executeProcess sample_host ?c sample_world = (Inr r, w') \<and>
      CachePut ''echo'' [''hi''] r \<in> set (new_calls sample_world w') \<and>
      Redirect ?c = None \<and> Success r \<and> ExitCode r = 0 \<and> cache_ok (cache w')"
    by auto
  show "cache_ok (cache (snd (Execute sample_host three_commands sample_world)))"
    using ok cache_eligibility
      [where h = sample_host and w = sample_world and script = three_commands,
       THEN conjunct2, THEN conjunct1]
    by simp
next
  let ?c = "redirected (command ''echo'' [''hi'']) ''>'' ''f'' 1"
  obtain res w' where a: "executeProcess sample_host ?c sample_world = (res, w')"
    by (cases "executeProcess sample_host ?c sample_world")
  have "Redirect ?c \<noteq> None" by (simp add: redirected_def)
  with a cache_eligibility
      [where h = sample_host and cmd = ?c and w = sample_world and res = res and w' = w',
       THEN conjunct1]
  have "cache w' = cache sample_world \<and> \<not> list_ex is_cache_call (new_calls sample_world w')"
    by blast
  with a show "\<exists>res w'. executeProcess sample_host ?c sample_world = (res, w') \<and>
      cache w' = cache sample_world \<and> \<not> list_ex is_cache_call (new_calls sample_world w')"
    by blast
qed

section \<open>Pipelines, stage by stage\<close>


text \<open>What the first stage hands to a process: never a text on standard input.\<close>

lemma stdlib_calls [simp]:
  "calls (Print t w) = calls w"
  "calls (Println t w) = calls w"
  "calls (Error' t w) = calls w"
  "calls (Errorln t w) = calls w"
  "calls (snd (ReadFile h f w)) = calls w"
  "calls (snd (WriteFile h f c w)) = calls w"
  "calls (snd (ListFiles h d w)) = calls w"
  "calls (snd (SetEnv k v w)) = calls w"
  "calls (snd (WorkingDir h w)) = calls w"
  "calls (snd (ChangeDir h d w)) = calls w"
  by (simp_all add: Print_def Println_def Error'_def Errorln_def ReadFile_def WriteFile_def
        ListFiles_def SetEnv_def WorkingDir_def ChangeDir_def
      split: option.splits sum.splits)



















text \<open>
  A pipeline tree without a command leaf has no stage: the loop runs no iteration and the
  read of the last result panics.
\<close>

lemma pipeline_without_commands_panics:
  "collectPipelineCommands p = [] \<Longrightarrow>
   ExecutePipeline h p w = (Inl (Panic ''runtime error: index out of range [-1]''), w)"
  by (simp add: ExecutePipeline_def)

section \<open>The while loop and its iteration limit\<close>

text \<open>
  With a condition that is true in every world and a body that returns a result in every
  world, the loop runs its rounds until the counter reaches the limit: the fatal error
  comes after exactly \<open>maxIterations - i\<close> further rounds of condition and body. A failing
  command in the body does not end the loop, since \<^verbatim>\<open>Execute\<close> reports every body as a
  success.
\<close>

lemma while_hits_limit:
  assumes cond: "\<And>w. \<exists>w'. evaluateCondition h c w = (Inr True, w')"
      and body: "\<And>w. \<exists>r w'. Execute h b w = (Inr r, w')"
  shows "i \<le> maxIterations \<Longrightarrow>
         ExecuteWhile_loop h c b i res w =
           (Inl (Err ''while loop exceeded maximum iterations (10000)''),
            (while_round h c b ^^ (maxIterations - i)) w)"
proof (induction "maxIterations - i" arbitrary: i res w)
  case 0
  then have "i \<ge> maxIterations" by simp
  with 0 show ?case by (simp add: ExecuteWhile_loop.simps)
next
  case (Suc m)
  then have lt: "\<not> i \<ge> maxIterations" and m: "m = maxIterations - (i + 1)"
    and le: "i + 1 \<le> maxIterations"
    by simp_all
  obtain w1 where c1: "evaluateCondition h c w = (Inr True, w1)"
    using cond by blast
  obtain r w2 where b1: "Execute h b w1 = (Inr r, w2)"
    using body by blast
  then have s: "ESuccess r" by (rule Execute_reports_success)
  have w2: "w2 = while_round h c b w"
    using c1 b1 by (simp add: while_round_def)
  have n: "maxIterations - i = Suc (maxIterations - (i + 1))"
    using lt by simp
  show ?case
    using lt c1 b1 s Suc.hyps(1) [OF m le, of "res\<lparr>Commands := Commands res @ Commands r\<rparr>" w2]
    by (subst ExecuteWhile_loop.simps) (simp add: w2 n funpow_Suc_right del: funpow.simps Execute.simps)
qed


lemma sample_condition_true:
  "\<exists>w'. evaluateCondition sample_host (fst always_failing_loop) w = (Inr True, w')"
  by (simp add: always_failing_loop_def sample_defs interp_defs)

lemma sample_body_fails:
  "\<exists>r w'. Execute sample_host (snd always_failing_loop) w = (Inr r, w') \<and>
     map (\<lambda>c. (Success c, ExitCode c)) (Commands r) = [(False, 1)] \<and> EExitCode r = 1"
  by (simp add: always_failing_loop_def sample_defs interp_defs absorb_def empty_result_def)

lemma sample_round_calls:
  "calls (while_round sample_host (fst always_failing_loop) (snd always_failing_loop) w) =
     calls w @ [SecurityCheck (command ''Print'' [''x'']), SecurityCheck (command ''ReadFile'' [])]"
  by (simp add: while_round_def always_failing_loop_def sample_defs interp_defs absorb_def
        empty_result_def)

lemma sample_rounds_calls:
  "calls ((while_round sample_host (fst always_failing_loop) (snd always_failing_loop) ^^ n) w) =
     calls w @ concat (replicate n
       [SecurityCheck (command ''Print'' [''x'']), SecurityCheck (command ''ReadFile'' [])])"
proof (induction n)
  case 0
  then show ?case by simp
next
  case (Suc n)
  have "concat (replicate (Suc n) xs) = concat (replicate n xs) @ xs" for xs :: "Event list"
    by (induction n) simp_all
  with Suc show ?case by (simp add: sample_round_calls)
qed

lemma count_rounds:
  assumes "a \<noteq> b"
  shows "count_list (concat (replicate n [a, b])) a = n"
    and "count_list (concat (replicate n [a, b])) b = n"
  using assms by (induction n) auto

text \<open>
  C3. The specification requires two things: an always-true condition ends in the fatal
  error after exactly 10000 evaluations, and a failing loop body instead ends the loop
  with a non-fatal failing result. On a loop whose condition always holds and whose body
  fails at every round, the code never returns the failing result: it evaluates the
  condition 10000 times, runs the failing body 10000 times, and ends in the fatal error.
\<close>

theorem failing_body_runs_to_limit:
  "\<exists>w'. ExecuteWhile sample_host (fst always_failing_loop) (snd always_failing_loop)
           sample_world =
         (Inl (Err ''while loop exceeded maximum iterations (10000)''), w') \<and>
        count_list (calls w') (SecurityCheck (command ''Print'' [''x''])) = 10000 \<and>
        count_list (calls w') (SecurityCheck (command ''ReadFile'' [])) = 10000"
proof -
  let ?c = "fst always_failing_loop" and ?b = "snd always_failing_loop"
  have body: "\<exists>r w'. Execute sample_host ?b w = (Inr r, w')" for w
    using sample_body_fails [of w] by blast
  have "ExecuteWhile sample_host ?c ?b sample_world =
          (Inl (Err ''while loop exceeded maximum iterations (10000)''),
           (while_round sample_host ?c ?b ^^ (maxIterations - 0)) sample_world)"
    using while_hits_limit [OF sample_condition_true body, of 0 empty_result sample_world]
    by simp
  moreover have "command ''Print'' [''x''] \<noteq> command ''ReadFile'' []"
    by (simp add: command_def)
  then have "SecurityCheck (command ''Print'' [''x'']) \<noteq> SecurityCheck (command ''ReadFile'' [])"
    by simp
  ultimately show ?thesis
    by (simp add: sample_rounds_calls count_rounds maxIterations_def sample_world_def)
qed

end
